theory Spec2Isabelle
  imports Main "HOL-Library.Word"
begin

section \<open>Staking protocol: data model\<close>

text \<open>
  The handlers of \<^verbatim>\<open>action/protocol/staking/handlers.go\<close> are embedded as functions
  that take the state manager's content and return either a fatal error (\<open>Inl\<close>, the
  Go \<^verbatim>\<open>return nil, err\<close>) or a receipt with the updated content. Byte slices,
  addresses and names are \<open>string\<close>s (\<open>char\<close> is the 8-bit character). Big integers
  are \<open>int\<close>, \<^verbatim>\<open>uint64\<close> is \<open>64 word\<close>. A \<^verbatim>\<open>time.Time\<close> is the number of
  nanoseconds since the Unix epoch, as an unbounded \<open>int\<close>; a \<^verbatim>\<open>time.Duration\<close> is
  a signed 64-bit count of nanoseconds.
\<close>

type_synonym bytes = string
type_synonym address = string
type_synonym time = int
type_synonym Duration = "64 word"

datatype error =
    ErrHitGasLimit
  | ErrStateNotExist
  | ErrNotEnoughBalance
  | ErrInvalidOwner
  | ErrInvalidCanName
  | ErrInvalidAmount
  | ErrOwnerMismatch
  | ErrSelfStakingBucket
  | ErrCandidateCollision
  | ErrNotExist
  | ErrInvalidTrie
  | ErrInvalidKeyLength
  | ErrInvalidNodeType
  | ErrUnmarshal
  | PanicUnexpectedNewRoot

datatype ReceiptStatus =
    ReceiptStatus_Failure
  | ReceiptStatus_Success
  | ReceiptStatus_ErrCandidateNotExist
  | ReceiptStatus_ErrInvalidBucketIndex
  | ReceiptStatus_ErrUnauthorizedOperator
  | ReceiptStatus_ErrInvalidBucketType
  | ReceiptStatus_ErrNotEnoughBalance
  | ReceiptStatus_ErrWithdrawBeforeUnstake
  | ReceiptStatus_ErrWithdrawBeforeMaturity

record Account =
  Balance :: int
  Nonce :: "64 word"

record VoteBucket =
  b_Candidate :: address
  b_Owner :: address
  StakedAmount :: int
  StakedDuration :: Duration
  CreateTime :: time
  StakeStartTime :: time
  UnstakeStartTime :: time
  AutoStake :: bool

record Candidate =
  c_Owner :: address
  Operator :: address
  Reward :: address
  Name :: string
  Votes :: int
  SelfStakeBucketIdx :: "64 word"
  SelfStake :: int

text \<open>
  The content of the state manager that the staking protocol reads and writes: the
  account namespace, the persisted indices of the data model, and the reward pool
  that the gas hook credits.
\<close>

record sm_state =
  accounts :: "address \<rightharpoonup> Account"
  bucket_tbl :: "64 word \<rightharpoonup> VoteBucket"
  voter_buckets :: "address \<Rightarrow> 64 word set"
  cand_buckets :: "address \<Rightarrow> 64 word set"
  candidate_tbl :: "address \<rightharpoonup> Candidate"
  bucket_count :: "64 word"
  reward_pool :: int

text \<open>
  The action context and the block context, which every handler reads from the ambient
  context at its entry. Both are taken to be present.
\<close>

record ActionCtx =
  Caller :: address
  a_Nonce :: "64 word"
  GasPrice :: int
  IntrinsicGas :: "64 word"
  ActionHash :: bytes

record BlockCtx =
  BlockHeight :: "64 word"
  BlockTimeStamp :: time
  GasLimit :: "64 word"

record Ctx =
  actionCtx :: ActionCtx
  blkCtx :: BlockCtx

text \<open>
  A topic is the 256-bit hash of a byte string; the hash function is outside the
  repository and stays symbolic. The data of a log is nil or the byte encoding of a
  bucket index (\<^verbatim>\<open>byteutil.Uint64ToBytes\<close>, also outside); it is kept as the index.
\<close>

datatype Hash256 = Hash256b bytes

record Log =
  l_Address :: string
  Topics :: "Hash256 list"
  Data :: "64 word option"
  l_BlockHeight :: "64 word"
  l_ActionHash :: bytes

record Receipt =
  Status :: ReceiptStatus
  r_BlockHeight :: "64 word"
  r_ActionHash :: bytes
  GasConsumed :: "64 word"
  ContractAddress :: string
  Logs :: "Log list"

record fetchError =
  err :: error
  failureStatus :: ReceiptStatus

type_synonym CandidateCenter = "Candidate list"

text \<open>
  The protocol object. \<open>depositGas\<close> is the hook the protocol is constructed with and
  \<open>calculateVoteWeight\<close> is the vote-weight formula of the protocol configuration;
  neither is defined in the handlers' file, so both are parameters here. The
  in-memory candidate center is threaded through the handlers next to the state.
\<close>

record Protocol =
  addr :: string
  WithdrawWaitingPeriod :: Duration
  RegistrationFee :: int
  depositGas :: "Ctx \<Rightarrow> sm_state \<Rightarrow> int \<Rightarrow> error + sm_state"
  calculateVoteWeight :: "VoteBucket \<Rightarrow> bool \<Rightarrow> int"

subsection \<open>Time\<close>

definition Unix :: "time \<Rightarrow> int" where
  "Unix t = t div 1000000000"

definition time_Add :: "time \<Rightarrow> Duration \<Rightarrow> time" where
  "time_Add t d = t + sint d"

definition Before :: "time \<Rightarrow> time \<Rightarrow> bool" where
  "Before t u = (t < u)"

definition Hour :: Duration where
  "Hour = 3600000000000"

subsection \<open>Accounts\<close>

text \<open>
  Modelled from the spec: the account utilities \<^verbatim>\<open>accountutil.LoadAccount\<close> and
  \<^verbatim>\<open>accountutil.StoreAccount\<close> and the balance methods of \<^verbatim>\<open>state.Account\<close> are
  not in the source files. An account is read from and stored back to the account
  namespace under the caller's address; a failed load is an error. The balance never
  goes below zero, so a debit larger than the balance is refused.
\<close>

definition LoadAccount :: "sm_state \<Rightarrow> address \<Rightarrow> error + Account" where
  "LoadAccount sm a = (case accounts sm a of None \<Rightarrow> Inl ErrStateNotExist | Some acc \<Rightarrow> Inr acc)"

definition StoreAccount :: "sm_state \<Rightarrow> address \<Rightarrow> Account \<Rightarrow> error + sm_state" where
  "StoreAccount sm a acc = Inr (sm\<lparr>accounts := (accounts sm)(a \<mapsto> acc)\<rparr>)"

definition SubBalance :: "Account \<Rightarrow> int \<Rightarrow> error + Account" where
  "SubBalance acc amount =
     (if amount > Balance acc then Inl ErrNotEnoughBalance
      else Inr (acc\<lparr>Balance := Balance acc - amount\<rparr>))"

definition AddBalance :: "Account \<Rightarrow> int \<Rightarrow> error + Account" where
  "AddBalance acc amount = Inr (acc\<lparr>Balance := Balance acc + amount\<rparr>)"

subsection \<open>Caller, settlement\<close>

text \<open>
  \<^verbatim>\<open>fetchCaller\<close> returns the triple (account, gas fee, fetch error) of the source as
  a sum: \<open>Inl (fetchErr, gasFee)\<close> when the fetch error is not nil, \<open>Inr (caller, gasFee)\<close>
  otherwise. In the load-failure branch the source returns a nil gas fee, which no
  handler reads; it is 0 here.
\<close>

definition fetchCaller :: "Ctx \<Rightarrow> sm_state \<Rightarrow> int \<Rightarrow> (fetchError \<times> int) + (Account \<times> int)" where
  "fetchCaller ctx sm amount =
     (case LoadAccount sm (Caller (actionCtx ctx)) of
        Inl e \<Rightarrow> Inl (\<lparr>err = e, failureStatus = ReceiptStatus_Failure\<rparr>, 0)
      | Inr caller \<Rightarrow>
          (let gasFee = GasPrice (actionCtx ctx) * uint (IntrinsicGas (actionCtx ctx)) in
           if amount + gasFee > Balance caller
           then Inl (\<lparr>err = ErrNotEnoughBalance, failureStatus = ReceiptStatus_ErrNotEnoughBalance\<rparr>,
                     (if gasFee > Balance caller then Balance caller else gasFee))
           else Inr (caller, gasFee)))"

definition increaseNonce :: "sm_state \<Rightarrow> address \<Rightarrow> 64 word \<Rightarrow> error + sm_state" where
  "increaseNonce sm a nonce =
     (case LoadAccount sm a of
        Inl e \<Rightarrow> Inl e
      | Inr acc \<Rightarrow> StoreAccount sm a (if nonce > Nonce acc then acc\<lparr>Nonce := nonce\<rparr> else acc))"

definition settleAction ::
  "Protocol \<Rightarrow> Ctx \<Rightarrow> sm_state \<Rightarrow> ReceiptStatus \<Rightarrow> int \<Rightarrow> Log list \<Rightarrow> error + (Receipt \<times> sm_state)" where
  "settleAction p ctx sm status gasFee logs =
     (if GasLimit (blkCtx ctx) < IntrinsicGas (actionCtx ctx) then Inl ErrHitGasLimit
      else case depositGas p ctx sm gasFee of
        Inl e \<Rightarrow> Inl e
      | Inr sm1 \<Rightarrow>
          (case increaseNonce sm1 (Caller (actionCtx ctx)) (a_Nonce (actionCtx ctx)) of
             Inl e \<Rightarrow> Inl e
           | Inr sm2 \<Rightarrow>
               Inr (\<lparr>Status = status,
                     r_BlockHeight = BlockHeight (blkCtx ctx),
                     r_ActionHash = ActionHash (actionCtx ctx),
                     GasConsumed = IntrinsicGas (actionCtx ctx),
                     ContractAddress = addr p,
                     Logs = logs\<rparr>, sm2)))"

text \<open>
  Modelled from the spec: the gas hook that the surrounding chain installs is not in
  the source files. It takes the amount from the caller's account and credits the
  reward pool; it does not look at the caller's balance.
\<close>

definition deposit_gas :: "Ctx \<Rightarrow> sm_state \<Rightarrow> int \<Rightarrow> error + sm_state" where
  "deposit_gas ctx sm amount =
     (case LoadAccount sm (Caller (actionCtx ctx)) of
        Inl e \<Rightarrow> Inl e
      | Inr acc \<Rightarrow>
          (case StoreAccount sm (Caller (actionCtx ctx)) (acc\<lparr>Balance := Balance acc - amount\<rparr>) of
             Inl e \<Rightarrow> Inl e
           | Inr sm1 \<Rightarrow> Inr (sm1\<lparr>reward_pool := reward_pool sm1 + amount\<rparr>)))"

subsection \<open>Buckets, indices and candidates in the state\<close>

text \<open>
  Modelled from the spec: the bucket and candidate store (\<^verbatim>\<open>getBucket\<close>,
  \<^verbatim>\<open>putBucket\<close>, \<^verbatim>\<open>updateBucket\<close>, \<^verbatim>\<open>delBucket\<close>, the two bucket-index
  tables and \<^verbatim>\<open>putCandidate\<close>) and the constructor \<^verbatim>\<open>NewVoteBucket\<close> are not in
  the source files. The persisted indices are \<open>bucket[i]\<close>, \<open>voter_buckets[owner]\<close>,
  \<open>cand_buckets[candidate]\<close> (sets of bucket indices), \<open>candidate[owner]\<close> and
  \<open>bucket_count\<close>, the next index. Reading a bucket that is not there fails with the
  state-not-exist error. A new bucket is still staked: its unstake start time is the
  zero sentinel, the Unix epoch.
\<close>

definition NewVoteBucket ::
  "address \<Rightarrow> address \<Rightarrow> int \<Rightarrow> 32 word \<Rightarrow> time \<Rightarrow> bool \<Rightarrow> VoteBucket" where
  "NewVoteBucket cand owner amount duration ctime autoStake =
     \<lparr>b_Candidate = cand, b_Owner = owner, StakedAmount = amount,
      StakedDuration = ucast duration * 24 * Hour,
      CreateTime = ctime, StakeStartTime = ctime, UnstakeStartTime = 0,
      AutoStake = autoStake\<rparr>"

definition getBucket :: "sm_state \<Rightarrow> 64 word \<Rightarrow> error + VoteBucket" where
  "getBucket sm index = (case bucket_tbl sm index of None \<Rightarrow> Inl ErrStateNotExist | Some b \<Rightarrow> Inr b)"

definition putBucket :: "sm_state \<Rightarrow> VoteBucket \<Rightarrow> error + (64 word \<times> sm_state)" where
  "putBucket sm bucket =
     (let index = bucket_count sm in
      Inr (index, sm\<lparr>bucket_tbl := (bucket_tbl sm)(index \<mapsto> bucket), bucket_count := index + 1\<rparr>))"

definition updateBucket :: "sm_state \<Rightarrow> 64 word \<Rightarrow> VoteBucket \<Rightarrow> error + sm_state" where
  "updateBucket sm index bucket = Inr (sm\<lparr>bucket_tbl := (bucket_tbl sm)(index \<mapsto> bucket)\<rparr>)"

definition delBucket :: "sm_state \<Rightarrow> 64 word \<Rightarrow> error + sm_state" where
  "delBucket sm index = Inr (sm\<lparr>bucket_tbl := (bucket_tbl sm)(index := None)\<rparr>)"

definition putVoterBucketIndex :: "sm_state \<Rightarrow> address \<Rightarrow> 64 word \<Rightarrow> error + sm_state" where
  "putVoterBucketIndex sm a index =
     Inr (sm\<lparr>voter_buckets := (voter_buckets sm)(a := insert index (voter_buckets sm a))\<rparr>)"

definition delVoterBucketIndex :: "sm_state \<Rightarrow> address \<Rightarrow> 64 word \<Rightarrow> error + sm_state" where
  "delVoterBucketIndex sm a index =
     Inr (sm\<lparr>voter_buckets := (voter_buckets sm)(a := voter_buckets sm a - {index})\<rparr>)"

definition putCandBucketIndex :: "sm_state \<Rightarrow> address \<Rightarrow> 64 word \<Rightarrow> error + sm_state" where
  "putCandBucketIndex sm a index =
     Inr (sm\<lparr>cand_buckets := (cand_buckets sm)(a := insert index (cand_buckets sm a))\<rparr>)"

definition delCandBucketIndex :: "sm_state \<Rightarrow> address \<Rightarrow> 64 word \<Rightarrow> error + sm_state" where
  "delCandBucketIndex sm a index =
     Inr (sm\<lparr>cand_buckets := (cand_buckets sm)(a := cand_buckets sm a - {index})\<rparr>)"

definition putCandidate :: "sm_state \<Rightarrow> Candidate \<Rightarrow> error + sm_state" where
  "putCandidate sm c = Inr (sm\<lparr>candidate_tbl := (candidate_tbl sm)(c_Owner c \<mapsto> c)\<rparr>)"

text \<open>
  Modelled from the spec: the vote and self-stake methods of \<^verbatim>\<open>Candidate\<close> are not
  in the source files. Votes and self-stake are big integers that stay at or above
  zero and a vote weight is never negative, so a negative amount and a subtraction
  below zero are refused.
\<close>

definition AddVote :: "Candidate \<Rightarrow> int \<Rightarrow> error + Candidate" where
  "AddVote c amount =
     (if amount < 0 then Inl ErrInvalidAmount else Inr (c\<lparr>Votes := Votes c + amount\<rparr>))"

definition SubVote :: "Candidate \<Rightarrow> int \<Rightarrow> error + Candidate" where
  "SubVote c amount =
     (if amount < 0 \<or> Votes c < amount then Inl ErrInvalidAmount
      else Inr (c\<lparr>Votes := Votes c - amount\<rparr>))"

definition AddSelfStake :: "Candidate \<Rightarrow> int \<Rightarrow> error + Candidate" where
  "AddSelfStake c amount =
     (if amount < 0 then Inl ErrInvalidAmount else Inr (c\<lparr>SelfStake := SelfStake c + amount\<rparr>))"

subsection \<open>The in-memory candidate center\<close>

text \<open>
  Modelled from the spec: the candidate center is not in the source files. It holds
  the set of candidates, found by name, by owner or by self-stake bucket index. The
  lookups hand out a copy of the candidate. \<open>Upsert\<close> rejects a candidate that
  collides with another owner's candidate on name, operator or self-stake bucket
  index, and otherwise replaces the candidate of the same owner.
\<close>

definition GetByName :: "CandidateCenter \<Rightarrow> string \<Rightarrow> Candidate option" where
  "GetByName cc n = find (\<lambda>c. Name c = n) cc"

definition GetByOwner :: "CandidateCenter \<Rightarrow> address \<Rightarrow> Candidate option" where
  "GetByOwner cc a = find (\<lambda>c. c_Owner c = a) cc"

definition ContainsSelfStakingBucket :: "CandidateCenter \<Rightarrow> 64 word \<Rightarrow> bool" where
  "ContainsSelfStakingBucket cc index = list_ex (\<lambda>c. SelfStakeBucketIdx c = index) cc"

definition Upsert :: "CandidateCenter \<Rightarrow> Candidate \<Rightarrow> error + CandidateCenter" where
  "Upsert cc c =
     (if list_ex (\<lambda>d. c_Owner d \<noteq> c_Owner c \<and>
                       (Name d = Name c \<or> Operator d = Operator c
                        \<or> SelfStakeBucketIdx d = SelfStakeBucketIdx c)) cc
      then Inl ErrCandidateCollision
      else Inr (c # filter (\<lambda>d. c_Owner d \<noteq> c_Owner c) cc))"

subsection \<open>Helpers of the handlers\<close>

definition fetchBucket ::
  "CandidateCenter \<Rightarrow> Ctx \<Rightarrow> sm_state \<Rightarrow> 64 word \<Rightarrow> bool \<Rightarrow> bool \<Rightarrow> fetchError + VoteBucket" where
  "fetchBucket cc ctx sr index checkOwner allowSelfStaking =
     (case getBucket sr index of
        Inl e \<Rightarrow>
          Inl \<lparr>err = e,
               failureStatus = (if e = ErrStateNotExist then ReceiptStatus_ErrInvalidBucketIndex
                                else ReceiptStatus_Failure)\<rparr>
      | Inr bucket \<Rightarrow>
          if checkOwner \<and> b_Owner bucket \<noteq> Caller (actionCtx ctx)
          then Inl \<lparr>err = ErrOwnerMismatch, failureStatus = ReceiptStatus_ErrUnauthorizedOperator\<rparr>
          else if \<not> allowSelfStaking \<and> ContainsSelfStakingBucket cc index
          then Inl \<lparr>err = ErrSelfStakingBucket, failureStatus = ReceiptStatus_ErrInvalidBucketType\<rparr>
          else Inr bucket)"

definition createLog ::
  "Protocol \<Rightarrow> Ctx \<Rightarrow> string \<Rightarrow> address option \<Rightarrow> address \<Rightarrow> 64 word option \<Rightarrow> Log" where
  "createLog p ctx handlerName candidateAddr voterAddr data =
     \<lparr>l_Address = addr p,
      Topics = [Hash256b handlerName]
               @ (case candidateAddr of None \<Rightarrow> [] | Some c \<Rightarrow> [Hash256b c])
               @ [Hash256b voterAddr],
      Data = data,
      l_BlockHeight = BlockHeight (blkCtx ctx),
      l_ActionHash = ActionHash (actionCtx ctx)\<rparr>"

definition putBucketAndIndex :: "sm_state \<Rightarrow> VoteBucket \<Rightarrow> error + (64 word \<times> sm_state)" where
  "putBucketAndIndex sm bucket =
     (case putBucket sm bucket of
        Inl e \<Rightarrow> Inl e
      | Inr (index, sm1) \<Rightarrow>
          (case putVoterBucketIndex sm1 (b_Owner bucket) index of
            Inl e \<Rightarrow> Inl e
          | Inr sm2 \<Rightarrow>
              (case putCandBucketIndex sm2 (b_Candidate bucket) index of
                Inl e \<Rightarrow> Inl e
              | Inr sm3 \<Rightarrow> Inr (index, sm3))))"

text \<open>
  \<open>settled cc r\<close> is \<^verbatim>\<open>return p.settleAction(...)\<close> in a handler: the receipt and
  the state of the settlement, with the candidate center as it was.
\<close>

definition settled ::
  "CandidateCenter \<Rightarrow> error + (Receipt \<times> sm_state) \<Rightarrow> error + (Receipt \<times> CandidateCenter \<times> sm_state)" where
  "settled cc r = (case r of Inl e \<Rightarrow> Inl e | Inr (receipt, sm) \<Rightarrow> Inr (receipt, cc, sm))"

section \<open>Staking protocol: the action handlers\<close>

text \<open>
  The actions, with the fields the handlers read through their accessor methods.
  A nil address of the source is \<open>None\<close>.
\<close>

record CreateStake =
  cs_Candidate :: string
  cs_Amount :: int
  cs_Duration :: "32 word"
  cs_AutoStake :: bool

record Unstake =
  us_BucketIndex :: "64 word"

record WithdrawStake =
  ws_BucketIndex :: "64 word"

record ChangeCandidate =
  cc_Candidate :: string
  cc_BucketIndex :: "64 word"

record TransferStake =
  ts_VoterAddress :: address
  ts_BucketIndex :: "64 word"

record DepositToStake =
  ds_BucketIndex :: "64 word"
  ds_Amount :: int

record Restake =
  rs_BucketIndex :: "64 word"
  rs_Duration :: "32 word"
  rs_AutoStake :: bool

record CandidateRegister =
  cr_Name :: string
  cr_OperatorAddress :: address
  cr_RewardAddress :: address
  cr_OwnerAddress :: "address option"
  cr_Amount :: int
  cr_Duration :: "32 word"
  cr_AutoStake :: bool

record CandidateUpdate =
  cu_Name :: string
  cu_OperatorAddress :: "address option"
  cu_RewardAddress :: "address option"

type_synonym handled = "error + (Receipt \<times> CandidateCenter \<times> sm_state)"

definition handleCreateStake ::
  "Protocol \<Rightarrow> CandidateCenter \<Rightarrow> Ctx \<Rightarrow> CreateStake \<Rightarrow> sm_state \<Rightarrow> handled" where
  "handleCreateStake p cc ctx act sm =
     (case fetchCaller ctx sm (cs_Amount act) of
        Inl (fetchErr, gasFee) \<Rightarrow>
          if failureStatus fetchErr = ReceiptStatus_Failure then Inl (err fetchErr)
          else settled cc (settleAction p ctx sm (failureStatus fetchErr) gasFee [])
      | Inr (staker, gasFee) \<Rightarrow>
          (case GetByName cc (cs_Candidate act) of
            None \<Rightarrow> settled cc (settleAction p ctx sm ReceiptStatus_ErrCandidateNotExist gasFee [])
          | Some candidate \<Rightarrow>
              let bucket = NewVoteBucket (c_Owner candidate) (Caller (actionCtx ctx)) (cs_Amount act)
                             (cs_Duration act) (BlockTimeStamp (blkCtx ctx)) (cs_AutoStake act) in
              (case putBucketAndIndex sm bucket of
                Inl e \<Rightarrow> Inl e
              | Inr (bucketIdx, sm1) \<Rightarrow>
              let weightedVote = calculateVoteWeight p bucket False in
              (case AddVote candidate weightedVote of
                Inl e \<Rightarrow> Inl e
              | Inr candidate1 \<Rightarrow>
              (case putCandidate sm1 candidate1 of
                Inl e \<Rightarrow> Inl e
              | Inr sm2 \<Rightarrow>
              (case SubBalance staker (cs_Amount act) of
                Inl e \<Rightarrow> Inl e
              | Inr staker1 \<Rightarrow>
              (case StoreAccount sm2 (Caller (actionCtx ctx)) staker1 of
                Inl e \<Rightarrow> Inl e
              | Inr sm3 \<Rightarrow>
              let lg = createLog p ctx ''createStake'' (Some (c_Owner candidate1))
                         (Caller (actionCtx ctx)) (Some bucketIdx) in
              (case settleAction p ctx sm3 ReceiptStatus_Success gasFee [lg] of
                Inl e \<Rightarrow> Inl e
              | Inr (receipt, sm4) \<Rightarrow>
              (case Upsert cc candidate1 of
                Inl e \<Rightarrow> Inl e
              | Inr cc1 \<Rightarrow> Inr (receipt, cc1, sm4))))))))))"

definition handleUnstake ::
  "Protocol \<Rightarrow> CandidateCenter \<Rightarrow> Ctx \<Rightarrow> Unstake \<Rightarrow> sm_state \<Rightarrow> handled" where
  "handleUnstake p cc ctx act sm =
     (case fetchCaller ctx sm 0 of
        Inl (fetchErr, gasFee) \<Rightarrow>
          if failureStatus fetchErr = ReceiptStatus_Failure then Inl (err fetchErr)
          else settled cc (settleAction p ctx sm (failureStatus fetchErr) gasFee [])
      | Inr (_, gasFee) \<Rightarrow>
          (case fetchBucket cc ctx sm (us_BucketIndex act) True True of
            Inl fetchErr \<Rightarrow>
              if failureStatus fetchErr = ReceiptStatus_Failure then Inl (err fetchErr)
              else settled cc (settleAction p ctx sm (failureStatus fetchErr) gasFee [])
          | Inr bucket0 \<Rightarrow>
              let bucket = bucket0\<lparr>UnstakeStartTime := BlockTimeStamp (blkCtx ctx)\<rparr> in
              (case updateBucket sm (us_BucketIndex act) bucket of
                Inl e \<Rightarrow> Inl e
              | Inr sm1 \<Rightarrow>
              (case GetByOwner cc (b_Candidate bucket) of
                None \<Rightarrow> Inl ErrInvalidOwner
              | Some candidate \<Rightarrow>
              let weightedVote = calculateVoteWeight p bucket
                                   (ContainsSelfStakingBucket cc (us_BucketIndex act)) in
              (case SubVote candidate weightedVote of
                Inl e \<Rightarrow> Inl e
              | Inr candidate1 \<Rightarrow>
              let candidate2 = (if ContainsSelfStakingBucket cc (us_BucketIndex act)
                                then candidate1\<lparr>SelfStake := 0\<rparr> else candidate1) in
              (case putCandidate sm1 candidate2 of
                Inl e \<Rightarrow> Inl e
              | Inr sm2 \<Rightarrow>
              let lg = createLog p ctx ''unstake'' None (Caller (actionCtx ctx)) None in
              (case settleAction p ctx sm2 ReceiptStatus_Success gasFee [lg] of
                Inl e \<Rightarrow> Inl e
              | Inr (receipt, sm3) \<Rightarrow>
              (case Upsert cc candidate2 of
                Inl e \<Rightarrow> Inl e
              | Inr cc1 \<Rightarrow> Inr (receipt, cc1, sm3)))))))))"

definition handleWithdrawStake ::
  "Protocol \<Rightarrow> CandidateCenter \<Rightarrow> Ctx \<Rightarrow> WithdrawStake \<Rightarrow> sm_state \<Rightarrow> handled" where
  "handleWithdrawStake p cc ctx act sm =
     (case fetchCaller ctx sm 0 of
        Inl (fetchErr, gasFee) \<Rightarrow>
          if failureStatus fetchErr = ReceiptStatus_Failure then Inl (err fetchErr)
          else settled cc (settleAction p ctx sm (failureStatus fetchErr) gasFee [])
      | Inr (withdrawer, gasFee) \<Rightarrow>
          (case fetchBucket cc ctx sm (ws_BucketIndex act) True True of
            Inl fetchErr \<Rightarrow>
              if failureStatus fetchErr = ReceiptStatus_Failure then Inl (err fetchErr)
              else settled cc (settleAction p ctx sm (failureStatus fetchErr) gasFee [])
          | Inr bucket \<Rightarrow>
              if Unix (UnstakeStartTime bucket) = 0
              then settled cc (settleAction p ctx sm ReceiptStatus_ErrWithdrawBeforeUnstake gasFee [])
              else if Before (BlockTimeStamp (blkCtx ctx))
                        (time_Add (UnstakeStartTime bucket) (WithdrawWaitingPeriod p))
              then settled cc (settleAction p ctx sm ReceiptStatus_ErrWithdrawBeforeMaturity gasFee [])
              else
              (case delBucket sm (ws_BucketIndex act) of
                Inl e \<Rightarrow> Inl e
              | Inr sm1 \<Rightarrow>
              (case delCandBucketIndex sm1 (b_Candidate bucket) (ws_BucketIndex act) of
                Inl e \<Rightarrow> Inl e
              | Inr sm2 \<Rightarrow>
              (case delVoterBucketIndex sm2 (b_Owner bucket) (ws_BucketIndex act) of
                Inl e \<Rightarrow> Inl e
              | Inr sm3 \<Rightarrow>
              (case AddBalance withdrawer (StakedAmount bucket) of
                Inl e \<Rightarrow> Inl e
              | Inr withdrawer1 \<Rightarrow>
              (case StoreAccount sm3 (Caller (actionCtx ctx)) withdrawer1 of
                Inl e \<Rightarrow> Inl e
              | Inr sm4 \<Rightarrow>
              let lg = createLog p ctx ''withdrawStake'' None (Caller (actionCtx ctx)) None in
              settled cc (settleAction p ctx sm4 ReceiptStatus_Success gasFee [lg]))))))))"

definition handleChangeCandidate ::
  "Protocol \<Rightarrow> CandidateCenter \<Rightarrow> Ctx \<Rightarrow> ChangeCandidate \<Rightarrow> sm_state \<Rightarrow> handled" where
  "handleChangeCandidate p cc ctx act sm =
     (case fetchCaller ctx sm 0 of
        Inl (fetchErr, gasFee) \<Rightarrow>
          if failureStatus fetchErr = ReceiptStatus_Failure then Inl (err fetchErr)
          else settled cc (settleAction p ctx sm (failureStatus fetchErr) gasFee [])
      | Inr (_, gasFee) \<Rightarrow>
          (case GetByName cc (cc_Candidate act) of
            None \<Rightarrow> settled cc (settleAction p ctx sm ReceiptStatus_ErrCandidateNotExist gasFee [])
          | Some candidate \<Rightarrow>
          (case fetchBucket cc ctx sm (cc_BucketIndex act) True False of
            Inl fetchErr \<Rightarrow>
              if failureStatus fetchErr = ReceiptStatus_Failure then Inl (err fetchErr)
              else settled cc (settleAction p ctx sm (failureStatus fetchErr) gasFee [])
          | Inr bucket0 \<Rightarrow>
              (case GetByOwner cc (b_Candidate bucket0) of
                None \<Rightarrow> Inl ErrInvalidOwner
              | Some prevCandidate \<Rightarrow>
              (case delCandBucketIndex sm (b_Candidate bucket0) (cc_BucketIndex act) of
                Inl e \<Rightarrow> Inl e
              | Inr sm1 \<Rightarrow>
              (case putCandBucketIndex sm1 (c_Owner candidate) (cc_BucketIndex act) of
                Inl e \<Rightarrow> Inl e
              | Inr sm2 \<Rightarrow>
              let bucket = bucket0\<lparr>b_Candidate := c_Owner candidate\<rparr> in
              (case updateBucket sm2 (cc_BucketIndex act) bucket of
                Inl e \<Rightarrow> Inl e
              | Inr sm3 \<Rightarrow>
              let weightedVotes = calculateVoteWeight p bucket False in
              (case SubVote prevCandidate weightedVotes of
                Inl e \<Rightarrow> Inl e
              | Inr prevCandidate1 \<Rightarrow>
              (case putCandidate sm3 prevCandidate1 of
                Inl e \<Rightarrow> Inl e
              | Inr sm4 \<Rightarrow>
              (case AddVote candidate weightedVotes of
                Inl e \<Rightarrow> Inl e
              | Inr candidate1 \<Rightarrow>
              (case putCandidate sm4 candidate1 of
                Inl e \<Rightarrow> Inl e
              | Inr sm5 \<Rightarrow>
              let lg = createLog p ctx ''changeCandidate'' (Some (c_Owner candidate1))
                         (Caller (actionCtx ctx)) None in
              (case settleAction p ctx sm5 ReceiptStatus_Success gasFee [lg] of
                Inl e \<Rightarrow> Inl e
              | Inr (receipt, sm6) \<Rightarrow>
              (case Upsert cc prevCandidate1 of
                Inl e \<Rightarrow> Inl e
              | Inr cc1 \<Rightarrow>
              (case Upsert cc1 candidate1 of
                Inl e \<Rightarrow> Inl e
              | Inr cc2 \<Rightarrow> Inr (receipt, cc2, sm6)))))))))))))))"

definition handleTransferStake ::
  "Protocol \<Rightarrow> CandidateCenter \<Rightarrow> Ctx \<Rightarrow> TransferStake \<Rightarrow> sm_state \<Rightarrow> handled" where
  "handleTransferStake p cc ctx act sm =
     (case fetchCaller ctx sm 0 of
        Inl (fetchErr, gasFee) \<Rightarrow>
          if failureStatus fetchErr = ReceiptStatus_Failure then Inl (err fetchErr)
          else settled cc (settleAction p ctx sm (failureStatus fetchErr) gasFee [])
      | Inr (_, gasFee) \<Rightarrow>
          (case fetchBucket cc ctx sm (ts_BucketIndex act) True False of
            Inl fetchErr \<Rightarrow>
              if failureStatus fetchErr = ReceiptStatus_Failure then Inl (err fetchErr)
              else settled cc (settleAction p ctx sm (failureStatus fetchErr) gasFee [])
          | Inr bucket0 \<Rightarrow>
              (case delVoterBucketIndex sm (b_Owner bucket0) (ts_BucketIndex act) of
                Inl e \<Rightarrow> Inl e
              | Inr sm1 \<Rightarrow>
              (case putVoterBucketIndex sm1 (ts_VoterAddress act) (ts_BucketIndex act) of
                Inl e \<Rightarrow> Inl e
              | Inr sm2 \<Rightarrow>
              let bucket = bucket0\<lparr>b_Owner := ts_VoterAddress act\<rparr> in
              (case updateBucket sm2 (ts_BucketIndex act) bucket of
                Inl e \<Rightarrow> Inl e
              | Inr sm3 \<Rightarrow>
              let lg = createLog p ctx ''transferStake'' None (Caller (actionCtx ctx)) None in
              settled cc (settleAction p ctx sm3 ReceiptStatus_Success gasFee [lg]))))))"

definition handleDepositToStake ::
  "Protocol \<Rightarrow> CandidateCenter \<Rightarrow> Ctx \<Rightarrow> DepositToStake \<Rightarrow> sm_state \<Rightarrow> handled" where
  "handleDepositToStake p cc ctx act sm =
     (case fetchCaller ctx sm (ds_Amount act) of
        Inl (fetchErr, gasFee) \<Rightarrow>
          if failureStatus fetchErr = ReceiptStatus_Failure then Inl (err fetchErr)
          else settled cc (settleAction p ctx sm (failureStatus fetchErr) gasFee [])
      | Inr (depositor, gasFee) \<Rightarrow>
          (case fetchBucket cc ctx sm (ds_BucketIndex act) False True of
            Inl fetchErr \<Rightarrow>
              if failureStatus fetchErr = ReceiptStatus_Failure then Inl (err fetchErr)
              else settled cc (settleAction p ctx sm (failureStatus fetchErr) gasFee [])
          | Inr bucket0 \<Rightarrow>
              if \<not> AutoStake bucket0
              then settled cc (settleAction p ctx sm ReceiptStatus_ErrInvalidBucketType gasFee [])
              else
              (case GetByOwner cc (b_Candidate bucket0) of
                None \<Rightarrow> Inl ErrInvalidOwner
              | Some candidate \<Rightarrow>
              let prevWeightedVotes = calculateVoteWeight p bucket0
                                        (ContainsSelfStakingBucket cc (ds_BucketIndex act));
                  bucket = bucket0\<lparr>StakedAmount := StakedAmount bucket0 + ds_Amount act\<rparr> in
              (case updateBucket sm (ds_BucketIndex act) bucket of
                Inl e \<Rightarrow> Inl e
              | Inr sm1 \<Rightarrow>
              (case SubVote candidate prevWeightedVotes of
                Inl e \<Rightarrow> Inl e
              | Inr candidate1 \<Rightarrow>
              let weightedVotes = calculateVoteWeight p bucket
                                    (ContainsSelfStakingBucket cc (ds_BucketIndex act)) in
              (case AddVote candidate1 weightedVotes of
                Inl e \<Rightarrow> Inl e
              | Inr candidate2 \<Rightarrow>
              (case (if ContainsSelfStakingBucket cc (ds_BucketIndex act)
                     then AddSelfStake candidate2 (ds_Amount act) else Inr candidate2) of
                Inl e \<Rightarrow> Inl e
              | Inr candidate3 \<Rightarrow>
              (case putCandidate sm1 candidate3 of
                Inl e \<Rightarrow> Inl e
              | Inr sm2 \<Rightarrow>
              (case SubBalance depositor (ds_Amount act) of
                Inl e \<Rightarrow> Inl e
              | Inr depositor1 \<Rightarrow>
              (case StoreAccount sm2 (Caller (actionCtx ctx)) depositor1 of
                Inl e \<Rightarrow> Inl e
              | Inr sm3 \<Rightarrow>
              let lg = createLog p ctx ''depositToStake'' None (Caller (actionCtx ctx)) None in
              (case settleAction p ctx sm3 ReceiptStatus_Success gasFee [lg] of
                Inl e \<Rightarrow> Inl e
              | Inr (receipt, sm4) \<Rightarrow>
              (case Upsert cc candidate3 of
                Inl e \<Rightarrow> Inl e
              | Inr cc1 \<Rightarrow> Inr (receipt, cc1, sm4)))))))))))))"

definition handleRestake ::
  "Protocol \<Rightarrow> CandidateCenter \<Rightarrow> Ctx \<Rightarrow> Restake \<Rightarrow> sm_state \<Rightarrow> handled" where
  "handleRestake p cc ctx act sm =
     (case fetchCaller ctx sm 0 of
        Inl (fetchErr, gasFee) \<Rightarrow>
          if failureStatus fetchErr = ReceiptStatus_Failure then Inl (err fetchErr)
          else settled cc (settleAction p ctx sm (failureStatus fetchErr) gasFee [])
      | Inr (_, gasFee) \<Rightarrow>
          (case fetchBucket cc ctx sm (rs_BucketIndex act) True True of
            Inl fetchErr \<Rightarrow>
              if failureStatus fetchErr = ReceiptStatus_Failure then Inl (err fetchErr)
              else settled cc (settleAction p ctx sm (failureStatus fetchErr) gasFee [])
          | Inr bucket0 \<Rightarrow>
              (case GetByOwner cc (b_Candidate bucket0) of
                None \<Rightarrow> Inl ErrInvalidOwner
              | Some candidate \<Rightarrow>
              let prevWeightedVotes = calculateVoteWeight p bucket0
                                        (ContainsSelfStakingBucket cc (rs_BucketIndex act));
                  bucket = bucket0\<lparr>StakedDuration := ucast (rs_Duration act) * 24 * Hour,
                                   AutoStake := rs_AutoStake act\<rparr> in
              (case updateBucket sm (rs_BucketIndex act) bucket of
                Inl e \<Rightarrow> Inl e
              | Inr sm1 \<Rightarrow>
              (case SubVote candidate prevWeightedVotes of
                Inl e \<Rightarrow> Inl e
              | Inr candidate1 \<Rightarrow>
              let weightedVotes = calculateVoteWeight p bucket
                                    (ContainsSelfStakingBucket cc (rs_BucketIndex act)) in
              (case AddVote candidate1 weightedVotes of
                Inl e \<Rightarrow> Inl e
              | Inr candidate2 \<Rightarrow>
              (case putCandidate sm1 candidate2 of
                Inl e \<Rightarrow> Inl e
              | Inr sm2 \<Rightarrow>
              let lg = createLog p ctx ''restake'' None (Caller (actionCtx ctx)) None in
              (case settleAction p ctx sm2 ReceiptStatus_Success gasFee [lg] of
                Inl e \<Rightarrow> Inl e
              | Inr (receipt, sm3) \<Rightarrow>
              (case Upsert cc candidate2 of
                Inl e \<Rightarrow> Inl e
              | Inr cc1 \<Rightarrow> Inr (receipt, cc1, sm3))))))))))"

definition handleCandidateRegister ::
  "Protocol \<Rightarrow> CandidateCenter \<Rightarrow> Ctx \<Rightarrow> CandidateRegister \<Rightarrow> sm_state \<Rightarrow> handled" where
  "handleCandidateRegister p cc ctx act sm =
     (let registrationFee = RegistrationFee p in
      case fetchCaller ctx sm (cr_Amount act + registrationFee) of
        Inl (fetchErr, gasFee) \<Rightarrow>
          if failureStatus fetchErr = ReceiptStatus_Failure then Inl (err fetchErr)
          else settled cc (settleAction p ctx sm (failureStatus fetchErr) gasFee [])
      | Inr (caller, gasFee) \<Rightarrow>
          let owner = (case cr_OwnerAddress act of None \<Rightarrow> Caller (actionCtx ctx) | Some a \<Rightarrow> a);
              bucket = NewVoteBucket owner owner (cr_Amount act) (cr_Duration act)
                         (BlockTimeStamp (blkCtx ctx)) (cr_AutoStake act) in
          (case putBucketAndIndex sm bucket of
            Inl e \<Rightarrow> Inl e
          | Inr (bucketIdx, sm1) \<Rightarrow>
          let c = \<lparr>c_Owner = owner,
                   Operator = cr_OperatorAddress act,
                   Reward = cr_RewardAddress act,
                   Name = cr_Name act,
                   Votes = calculateVoteWeight p bucket True,
                   SelfStakeBucketIdx = bucketIdx,
                   SelfStake = cr_Amount act\<rparr> in
          (case putCandidate sm1 c of
            Inl e \<Rightarrow> Inl e
          | Inr sm2 \<Rightarrow>
          (case SubBalance caller (cr_Amount act) of
            Inl e \<Rightarrow> Inl e
          | Inr caller1 \<Rightarrow>
          (case StoreAccount sm2 (Caller (actionCtx ctx)) caller1 of
            Inl e \<Rightarrow> Inl e
          | Inr sm3 \<Rightarrow>
          (case depositGas p ctx sm3 registrationFee of
            Inl e \<Rightarrow> Inl e
          | Inr sm4 \<Rightarrow>
          let lg = createLog p ctx ''candidateRegister'' (Some owner) (Caller (actionCtx ctx))
                     (Some bucketIdx) in
          (case settleAction p ctx sm4 ReceiptStatus_Success gasFee [lg] of
            Inl e \<Rightarrow> Inl e
          | Inr (receipt, sm5) \<Rightarrow>
          (case Upsert cc c of
            Inl e \<Rightarrow> Inl e
          | Inr cc1 \<Rightarrow> Inr (receipt, cc1, sm5)))))))))"

definition handleCandidateUpdate ::
  "Protocol \<Rightarrow> CandidateCenter \<Rightarrow> Ctx \<Rightarrow> CandidateUpdate \<Rightarrow> sm_state \<Rightarrow> handled" where
  "handleCandidateUpdate p cc ctx act sm =
     (case fetchCaller ctx sm 0 of
        Inl (fetchErr, gasFee) \<Rightarrow>
          if failureStatus fetchErr = ReceiptStatus_Failure then Inl (err fetchErr)
          else settled cc (settleAction p ctx sm (failureStatus fetchErr) gasFee [])
      | Inr (_, gasFee) \<Rightarrow>
          (case GetByOwner cc (Caller (actionCtx ctx)) of
            None \<Rightarrow> settled cc (settleAction p ctx sm ReceiptStatus_ErrCandidateNotExist gasFee [])
          | Some c0 \<Rightarrow>
              let c1 = (if length (cu_Name act) \<noteq> 0 then c0\<lparr>Name := cu_Name act\<rparr> else c0);
                  c2 = (case cu_OperatorAddress act of None \<Rightarrow> c1 | Some a \<Rightarrow> c1\<lparr>Operator := a\<rparr>);
                  c = (case cu_RewardAddress act of None \<Rightarrow> c2 | Some a \<Rightarrow> c2\<lparr>Reward := a\<rparr>) in
              (case putCandidate sm c of
                Inl e \<Rightarrow> Inl e
              | Inr sm1 \<Rightarrow>
              let lg = createLog p ctx ''candidateUpdate'' None (Caller (actionCtx ctx)) None in
              (case settleAction p ctx sm1 ReceiptStatus_Success gasFee [lg] of
                Inl e \<Rightarrow> Inl e
              | Inr (receipt, sm2) \<Rightarrow>
              (case Upsert cc c of
                Inl e \<Rightarrow> Inl e
              | Inr cc1 \<Rightarrow> Inr (receipt, cc1, sm2))))))"

text \<open>
  Modelled from the spec: the dispatch on the kind of action is not in the source
  files. Each action goes to its handler.
\<close>

datatype StakingAction =
    ActCreateStake CreateStake
  | ActUnstake Unstake
  | ActWithdrawStake WithdrawStake
  | ActChangeCandidate ChangeCandidate
  | ActTransferStake TransferStake
  | ActDepositToStake DepositToStake
  | ActRestake Restake
  | ActCandidateRegister CandidateRegister
  | ActCandidateUpdate CandidateUpdate

fun handle :: "Protocol \<Rightarrow> CandidateCenter \<Rightarrow> Ctx \<Rightarrow> StakingAction \<Rightarrow> sm_state \<Rightarrow> handled" where
  "handle p cc ctx (ActCreateStake act) sm = handleCreateStake p cc ctx act sm"
| "handle p cc ctx (ActUnstake act) sm = handleUnstake p cc ctx act sm"
| "handle p cc ctx (ActWithdrawStake act) sm = handleWithdrawStake p cc ctx act sm"
| "handle p cc ctx (ActChangeCandidate act) sm = handleChangeCandidate p cc ctx act sm"
| "handle p cc ctx (ActTransferStake act) sm = handleTransferStake p cc ctx act sm"
| "handle p cc ctx (ActDepositToStake act) sm = handleDepositToStake p cc ctx act sm"
| "handle p cc ctx (ActRestake act) sm = handleRestake p cc ctx act sm"
| "handle p cc ctx (ActCandidateRegister act) sm = handleCandidateRegister p cc ctx act sm"
| "handle p cc ctx (ActCandidateUpdate act) sm = handleCandidateUpdate p cc ctx act sm"

section \<open>Merkle Patricia trie\<close>

text \<open>
  \<^verbatim>\<open>db/trie/merklepatriciatree/merklepatriciatree.go\<close> holds the trie object: the
  root, its hash, the key-value store and the public operations. The node
  implementation (the branch, leaf and extension nodes with their search, upsert,
  delete and hash, the empty root, and the protobuf encoding of a node) is not in the
  source files, so the trie takes it as a parameter: a record of the operations the
  trie calls. \<open>'n\<close> is the content of a node and \<open>'p\<close> the content of its protobuf
  message. A node operation that reads or writes the store takes the store and
  returns it. The mutex is left out: every operation runs alone.
\<close>

type_synonym KVStore = "bytes \<rightharpoonup> bytes"

datatype 'n node = BranchNode 'n | LeafNode 'n | ExtensionNode 'n

record 'p NodePb =
  GetBranch :: "'p option"
  GetLeaf :: "'p option"
  GetExtend :: "'p option"

record ('n, 'p) node_ops =
  newEmptyRootBranchNode :: 'n
  n_Hash :: "'n \<Rightarrow> error + bytes"
  MarkAsRoot :: "'n \<Rightarrow> 'n"
  n_Search :: "KVStore \<Rightarrow> 'n \<Rightarrow> bytes \<Rightarrow> nat \<Rightarrow> error + 'n node"
  n_Delete :: "KVStore \<Rightarrow> 'n \<Rightarrow> bytes \<Rightarrow> nat \<Rightarrow> (error + 'n node) \<times> KVStore"
  n_Upsert :: "KVStore \<Rightarrow> 'n \<Rightarrow> bytes \<Rightarrow> nat \<Rightarrow> bytes \<Rightarrow> (error + 'n node) \<times> KVStore"
  Value :: "'n \<Rightarrow> bytes"
  Unmarshal :: "bytes \<Rightarrow> error + 'p NodePb"
  newBranchNodeFromProtoPb :: "'p \<Rightarrow> 'n"
  newLeafNodeFromProtoPb :: "'p \<Rightarrow> 'n"
  newExtensionNodeFromProtoPb :: "'p \<Rightarrow> 'n"

text \<open>
  The trie object. A nil byte slice is the empty list. An operation of the source
  changes the object in place and returns an error or nil; here it returns the error
  (\<open>None\<close> for nil) with the object after the call.
\<close>

record 'n merklePatriciaTree =
  keyLength :: int
  root :: 'n
  rootHash :: bytes
  kvStore :: KVStore
  emptyRootHash :: bytes

definition RootHash :: "'n merklePatriciaTree \<Rightarrow> bytes" where
  "RootHash mpt = rootHash mpt"

definition isEmptyRootHash :: "'n merklePatriciaTree \<Rightarrow> bytes \<Rightarrow> bool" where
  "isEmptyRootHash mpt h = (h = emptyRootHash mpt)"

definition IsEmpty :: "'n merklePatriciaTree \<Rightarrow> bool" where
  "IsEmpty mpt = isEmptyRootHash mpt (rootHash mpt)"

definition resetRoot ::
  "('n, 'p) node_ops \<Rightarrow> 'n merklePatriciaTree \<Rightarrow> 'n \<Rightarrow> error option \<times> 'n merklePatriciaTree" where
  "resetRoot ops mpt newRoot =
     (let mpt1 = mpt\<lparr>root := newRoot\<rparr> in
      case n_Hash ops newRoot of
        Inl e \<Rightarrow> (Some e, mpt1)
      | Inr h \<Rightarrow> (None, mpt1\<lparr>rootHash := h\<rparr>))"

definition loadNode ::
  "('n, 'p) node_ops \<Rightarrow> 'n merklePatriciaTree \<Rightarrow> bytes \<Rightarrow> error + 'n node" where
  "loadNode ops mpt key =
     (case kvStore mpt key of
        None \<Rightarrow> Inl ErrNotExist
      | Some s \<Rightarrow>
          (case Unmarshal ops s of
             Inl e \<Rightarrow> Inl e
           | Inr pb \<Rightarrow>
               (case GetBranch pb of
                  Some pbBranch \<Rightarrow> Inr (BranchNode (newBranchNodeFromProtoPb ops pbBranch))
                | None \<Rightarrow>
                    (case GetLeaf pb of
                       Some pbLeaf \<Rightarrow> Inr (LeafNode (newLeafNodeFromProtoPb ops pbLeaf))
                     | None \<Rightarrow>
                         (case GetExtend pb of
                            Some pbExtend \<Rightarrow> Inr (ExtensionNode (newExtensionNodeFromProtoPb ops pbExtend))
                          | None \<Rightarrow> Inl ErrInvalidNodeType)))))"

definition setRootHash ::
  "('n, 'p) node_ops \<Rightarrow> 'n merklePatriciaTree \<Rightarrow> bytes \<Rightarrow> error option \<times> 'n merklePatriciaTree" where
  "setRootHash ops mpt h =
     (if length h = 0 \<or> isEmptyRootHash mpt h
      then (let emptyRoot = newEmptyRootBranchNode ops in (None, snd (resetRoot ops mpt emptyRoot)))
      else case loadNode ops mpt h of
        Inl e \<Rightarrow> (Some e, mpt)
      | Inr nd \<Rightarrow>
          (case nd of
             BranchNode root0 \<Rightarrow> (None, snd (resetRoot ops mpt (MarkAsRoot ops root0)))
           | LeafNode _ \<Rightarrow> (Some ErrInvalidTrie, mpt)
           | ExtensionNode _ \<Rightarrow> (Some ErrInvalidTrie, mpt)))"

definition SetRootHash ::
  "('n, 'p) node_ops \<Rightarrow> 'n merklePatriciaTree \<Rightarrow> bytes \<Rightarrow> error option \<times> 'n merklePatriciaTree" where
  "SetRootHash ops mpt h = setRootHash ops mpt h"

definition Start ::
  "('n, 'p) node_ops \<Rightarrow> 'n merklePatriciaTree \<Rightarrow> error option \<times> 'n merklePatriciaTree" where
  "Start ops mpt =
     (case n_Hash ops (newEmptyRootBranchNode ops) of
        Inl e \<Rightarrow> (Some e, mpt)
      | Inr h \<Rightarrow>
          (let mpt1 = mpt\<lparr>emptyRootHash := h\<rparr>;
               mpt2 = (if rootHash mpt1 = [] then mpt1\<lparr>rootHash := emptyRootHash mpt1\<rparr> else mpt1)
           in setRootHash ops mpt2 (rootHash mpt2)))"

definition checkKeyType :: "'n merklePatriciaTree \<Rightarrow> bytes \<Rightarrow> error + bytes" where
  "checkKeyType mpt key =
     (if int (length key) \<noteq> keyLength mpt then Inl ErrInvalidKeyLength else Inr key)"

definition Get :: "('n, 'p) node_ops \<Rightarrow> 'n merklePatriciaTree \<Rightarrow> bytes \<Rightarrow> error + bytes" where
  "Get ops mpt key =
     (case checkKeyType mpt key of
        Inl e \<Rightarrow> Inl e
      | Inr kt \<Rightarrow>
          (case n_Search ops (kvStore mpt) (root mpt) kt 0 of
             Inl e \<Rightarrow> Inl e
           | Inr t \<Rightarrow>
               (case t of
                  LeafNode l \<Rightarrow> Inr (Value ops l)
                | BranchNode _ \<Rightarrow> Inl ErrInvalidTrie
                | ExtensionNode _ \<Rightarrow> Inl ErrInvalidTrie)))"

definition Delete ::
  "('n, 'p) node_ops \<Rightarrow> 'n merklePatriciaTree \<Rightarrow> bytes \<Rightarrow> error option \<times> 'n merklePatriciaTree" where
  "Delete ops mpt key =
     (case checkKeyType mpt key of
        Inl e \<Rightarrow> (Some e, mpt)
      | Inr kt \<Rightarrow>
          (case n_Delete ops (kvStore mpt) (root mpt) kt 0 of
             (Inl e, kv) \<Rightarrow> (Some ErrNotExist, mpt\<lparr>kvStore := kv\<rparr>)
           | (Inr newRoot, kv) \<Rightarrow>
               (case newRoot of
                  BranchNode bn \<Rightarrow> resetRoot ops (mpt\<lparr>kvStore := kv\<rparr>) bn
                | LeafNode _ \<Rightarrow> (Some PanicUnexpectedNewRoot, mpt\<lparr>kvStore := kv\<rparr>)
                | ExtensionNode _ \<Rightarrow> (Some PanicUnexpectedNewRoot, mpt\<lparr>kvStore := kv\<rparr>))))"

definition Upsert_mpt ::
  "('n, 'p) node_ops \<Rightarrow> 'n merklePatriciaTree \<Rightarrow> bytes \<Rightarrow> bytes \<Rightarrow> error option \<times> 'n merklePatriciaTree" where
  "Upsert_mpt ops mpt key val =
     (case checkKeyType mpt key of
        Inl e \<Rightarrow> (Some e, mpt)
      | Inr kt \<Rightarrow>
          (case n_Upsert ops (kvStore mpt) (root mpt) kt 0 val of
             (Inl e, kv) \<Rightarrow> (Some e, mpt\<lparr>kvStore := kv\<rparr>)
           | (Inr newRoot, kv) \<Rightarrow>
               (case newRoot of
                  BranchNode bn \<Rightarrow> resetRoot ops (mpt\<lparr>kvStore := kv\<rparr>) bn
                | LeafNode _ \<Rightarrow> (Some PanicUnexpectedNewRoot, mpt\<lparr>kvStore := kv\<rparr>)
                | ExtensionNode _ \<Rightarrow> (Some PanicUnexpectedNewRoot, mpt\<lparr>kvStore := kv\<rparr>))))"

section \<open>Notions used in the statements\<close>

text \<open>The gas fee of an action: gas price times intrinsic gas.\<close>

definition gas_fee :: "Ctx \<Rightarrow> int" where
  "gas_fee ctx = GasPrice (actionCtx ctx) * uint (IntrinsicGas (actionCtx ctx))"

text \<open>The persisted bucket, bucket-index and candidate state.\<close>

definition staking_tables ::
  "sm_state \<Rightarrow> (64 word \<rightharpoonup> VoteBucket) \<times> (address \<Rightarrow> 64 word set) \<times> (address \<Rightarrow> 64 word set)
     \<times> (address \<rightharpoonup> Candidate) \<times> 64 word" where
  "staking_tables sm =
     (bucket_tbl sm, voter_buckets sm, cand_buckets sm, candidate_tbl sm, bucket_count sm)"

text \<open>
  \<open>failed_settlement p ctx sm r sm'\<close>: the receipt \<open>r\<close> and the state \<open>sm'\<close> are the
  result of a settlement, without logs, on the state \<open>sm\<close> itself, for the gas fee or
  for what the caller's balance covers of it.
\<close>

definition failed_settlement :: "Protocol \<Rightarrow> Ctx \<Rightarrow> sm_state \<Rightarrow> Receipt \<Rightarrow> sm_state \<Rightarrow> bool" where
  "failed_settlement p ctx sm r sm' \<longleftrightarrow>
     (\<exists>st gasFee. settleAction p ctx sm st gasFee [] = Inr (r, sm') \<and>
        (gasFee = gas_fee ctx \<or>
         (\<exists>caller. accounts sm (Caller (actionCtx ctx)) = Some caller \<and>
                    gasFee = min (gas_fee ctx) (Balance caller))))"

section \<open>Concrete inputs\<close>

text \<open>
  A protocol, contexts and states on which the handlers are run: the registration fee
  is 10, the waiting period three days, the gas hook is \<open>deposit_gas\<close>, and the weight
  of a bucket is its staked amount.
\<close>

definition amount_weight :: "VoteBucket \<Rightarrow> bool \<Rightarrow> int" where
  "amount_weight b selfStake = StakedAmount b"

definition proto0 :: Protocol where
  "proto0 = \<lparr>addr = ''staking'', WithdrawWaitingPeriod = 72 * Hour, RegistrationFee = 10,
             depositGas = deposit_gas, calculateVoteWeight = amount_weight\<rparr>"

definition ctx_of :: "address \<Rightarrow> time \<Rightarrow> Ctx" where
  "ctx_of a t =
     \<lparr>actionCtx = \<lparr>Caller = a, a_Nonce = 1, GasPrice = 1, IntrinsicGas = 1, ActionHash = ''h''\<rparr>,
      blkCtx = \<lparr>BlockHeight = 1, BlockTimeStamp = t, GasLimit = 10\<rparr>\<rparr>"

definition sm_empty :: sm_state where
  "sm_empty = \<lparr>accounts = Map.empty, bucket_tbl = Map.empty, voter_buckets = (\<lambda>_. {}),
               cand_buckets = (\<lambda>_. {}), candidate_tbl = Map.empty, bucket_count = 0,
               reward_pool = 0\<rparr>"

definition sm_alice :: "int \<Rightarrow> sm_state" where
  "sm_alice b = sm_empty\<lparr>accounts := [''alice'' \<mapsto> \<lparr>Balance = b, Nonce = 0\<rparr>]\<rparr>"

definition cand_bob :: Candidate where
  "cand_bob = \<lparr>c_Owner = ''bob'', Operator = ''bob-op'', Reward = ''bob-rw'', Name = ''bob'',
               Votes = 50, SelfStakeBucketIdx = 7, SelfStake = 0\<rparr>"

definition bucket0 :: "address \<Rightarrow> time \<Rightarrow> bool \<Rightarrow> VoteBucket" where
  "bucket0 owner unstaked auto =
     \<lparr>b_Candidate = ''bob'', b_Owner = owner, StakedAmount = 50, StakedDuration = 24 * Hour,
      CreateTime = 1000000000, StakeStartTime = 1000000000, UnstakeStartTime = unstaked,
      AutoStake = auto\<rparr>"

text \<open>Alice holds the given balance; bucket 0 votes for bob and belongs to \<open>owner\<close>.\<close>

definition sm_bucket :: "int \<Rightarrow> VoteBucket \<Rightarrow> sm_state" where
  "sm_bucket b bk =
     \<lparr>accounts = [''alice'' \<mapsto> \<lparr>Balance = b, Nonce = 0\<rparr>],
      bucket_tbl = [0 \<mapsto> bk],
      voter_buckets = (\<lambda>a. if a = b_Owner bk then {0} else {}),
      cand_buckets = (\<lambda>a. if a = ''bob'' then {0} else {}),
      candidate_tbl = [''bob'' \<mapsto> cand_bob],
      bucket_count = 1,
      reward_pool = 0\<rparr>"

text \<open>
  An instance of the node operations for concrete runs of the trie: keys are one
  byte long, the root branch holds its (key byte, value byte) pairs in a row, the
  encoding of a node is a tag byte before its content, and the hash function is the
  identity, so a node is stored under its own encoding.
\<close>

fun flat_lookup :: "bytes \<Rightarrow> char \<Rightarrow> char option" where
  "flat_lookup (a # b # r) c = (if a = c then Some b else flat_lookup r c)"
| "flat_lookup _ c = None"

fun flat_remove :: "bytes \<Rightarrow> char \<Rightarrow> bytes" where
  "flat_remove (a # b # r) c = (if a = c then flat_remove r c else a # b # flat_remove r c)"
| "flat_remove r c = r"

definition flat_enc :: "bytes \<Rightarrow> bytes" where
  "flat_enc n = CHR ''B'' # n"

definition flat_key :: "bytes \<Rightarrow> nat \<Rightarrow> char option" where
  "flat_key k d = (if d < length k then Some (k ! d) else None)"

definition flat_ops :: "(bytes, bytes) node_ops" where
  "flat_ops =
     \<lparr>newEmptyRootBranchNode = [],
      n_Hash = (\<lambda>n. Inr (flat_enc n)),
      MarkAsRoot = (\<lambda>n. n),
      n_Search = (\<lambda>kv n k d.
        case flat_key k d of
          None \<Rightarrow> Inl ErrNotExist
        | Some c \<Rightarrow> (case flat_lookup n c of None \<Rightarrow> Inl ErrNotExist | Some v \<Rightarrow> Inr (LeafNode [v]))),
      n_Delete = (\<lambda>kv n k d.
        case flat_key k d of
          None \<Rightarrow> (Inl ErrNotExist, kv)
        | Some c \<Rightarrow>
            (case flat_lookup n c of
               None \<Rightarrow> (Inl ErrNotExist, kv)
             | Some v \<Rightarrow> (let n1 = flat_remove n c
                          in (Inr (BranchNode n1), kv(flat_enc n1 \<mapsto> flat_enc n1))))),
      n_Upsert = (\<lambda>kv n k d v.
        case (flat_key k d, v) of
          (Some c, [b]) \<Rightarrow> (let n1 = c # b # flat_remove n c
                            in (Inr (BranchNode n1), kv(flat_enc n1 \<mapsto> flat_enc n1)))
        | _ \<Rightarrow> (Inl ErrInvalidKeyLength, kv)),
      Value = (\<lambda>n. n),
      Unmarshal = (\<lambda>s.
        case s of
          [] \<Rightarrow> Inl ErrUnmarshal
        | t # r \<Rightarrow> Inr \<lparr>GetBranch = (if t = CHR ''B'' then Some r else None),
                         GetLeaf = (if t = CHR ''L'' then Some r else None),
                         GetExtend = (if t = CHR ''E'' then Some r else None)\<rparr>),
      newBranchNodeFromProtoPb = (\<lambda>p. p),
      newLeafNodeFromProtoPb = (\<lambda>p. p),
      newExtensionNodeFromProtoPb = (\<lambda>p. p)\<rparr>"

text \<open>A started trie with the pair (a, 1) under root hash \<open>Ba1\<close>; the store also keeps the empty root.\<close>

definition mpt_a :: "bytes merklePatriciaTree" where
  "mpt_a = \<lparr>keyLength = 1, root = ''a1'', rootHash = ''Ba1'',
            kvStore = [''Ba1'' \<mapsto> ''Ba1'', ''B'' \<mapsto> ''B''], emptyRootHash = ''B''\<rparr>"

section \<open>Settlement and the caller\<close>

lemmas handler_splits = sum.splits option.splits if_splits prod.splits

lemma settleAction_Status:
  "settleAction p ctx sm st g l = Inr (r, sm') \<Longrightarrow> Status r = st"
  by (auto simp: settleAction_def split: if_splits sum.splits)

lemma settleAction_steps:
  "settleAction p ctx sm st g l = Inr (r, sm') \<Longrightarrow>
   \<exists>sm1. depositGas p ctx sm g = Inr sm1 \<and>
         increaseNonce sm1 (Caller (actionCtx ctx)) (a_Nonce (actionCtx ctx)) = Inr sm'"
  by (auto simp: settleAction_def split: if_splits sum.splits)

lemma increaseNonce_tables:
  "increaseNonce sm a n = Inr sm' \<Longrightarrow> staking_tables sm' = staking_tables sm"
  by (auto simp: increaseNonce_def LoadAccount_def StoreAccount_def staking_tables_def
           split: option.splits)

lemma increaseNonce_nonce:
  "increaseNonce sm a n = Inr sm' \<Longrightarrow> \<exists>acc. accounts sm' a = Some acc \<and> n \<le> Nonce acc"
  by (auto simp: increaseNonce_def LoadAccount_def StoreAccount_def split: option.splits)

lemma settled_Inr:
  "settled cc x = Inr (r, cc', sm') \<longleftrightarrow> (cc' = cc \<and> x = Inr (r, sm'))"
  by (auto simp: settled_def split: sum.splits)

lemma deposit_gas_tables:
  "deposit_gas ctx sm a = Inr sm1 \<Longrightarrow> staking_tables sm1 = staking_tables sm"
  by (auto simp: deposit_gas_def LoadAccount_def StoreAccount_def staking_tables_def
           split: option.splits)

lemma fetchCaller_Inl:
  "fetchCaller ctx sm amt = Inl (fe, g) \<Longrightarrow> failureStatus fe \<noteq> ReceiptStatus_Failure \<Longrightarrow>
   \<exists>caller. accounts sm (Caller (actionCtx ctx)) = Some caller \<and> g = min (gas_fee ctx) (Balance caller)"
  by (cases "accounts sm (Caller (actionCtx ctx))")
     (auto simp: fetchCaller_def LoadAccount_def Let_def gas_fee_def min_def split: if_splits)

lemma fetchCaller_Inr:
  "fetchCaller ctx sm amt = Inr (acc, g) \<Longrightarrow> g = gas_fee ctx"
  by (auto simp: fetchCaller_def LoadAccount_def Let_def gas_fee_def split: option.splits if_splits)

lemma fetchCaller_enough:
  "accounts sm (Caller (actionCtx ctx)) = Some caller \<Longrightarrow> amt + gas_fee ctx \<le> Balance caller \<Longrightarrow>
   fetchCaller ctx sm amt = Inr (caller, gas_fee ctx)"
  by (simp add: fetchCaller_def LoadAccount_def Let_def gas_fee_def)

lemma fetchCaller_short:
  "accounts sm (Caller (actionCtx ctx)) = Some caller \<Longrightarrow> Balance caller < amt + gas_fee ctx \<Longrightarrow>
   fetchCaller ctx sm amt =
     Inl (\<lparr>err = ErrNotEnoughBalance, failureStatus = ReceiptStatus_ErrNotEnoughBalance\<rparr>,
          min (gas_fee ctx) (Balance caller))"
  by (simp add: fetchCaller_def LoadAccount_def Let_def gas_fee_def min_def)

text \<open>
  C2. With the caller's account loaded: if the required amount plus the gas fee (gas
  price times intrinsic gas) exceeds the balance, \<open>fetchCaller\<close> returns the
  not-enough-balance error with the fee \<open>min gas_fee balance\<close>; otherwise it returns
  the account and the full gas fee.
\<close>

theorem fetchCaller_balance_check:
  assumes "accounts sm (Caller (actionCtx ctx)) = Some caller"
  shows "fetchCaller ctx sm amount =
     (if amount + gas_fee ctx > Balance caller
      then Inl (\<lparr>err = ErrNotEnoughBalance, failureStatus = ReceiptStatus_ErrNotEnoughBalance\<rparr>,
                min (gas_fee ctx) (Balance caller))
      else Inr (caller, gas_fee ctx))"
  using assms by (simp add: fetchCaller_def LoadAccount_def Let_def min_def gas_fee_def)

theorem fetchCaller_balance_check_witness:
  "accounts (sm_alice 5) (Caller (actionCtx (ctx_of ''alice'' 0))) = Some \<lparr>Balance = 5, Nonce = 0\<rparr> \<and>
   fetchCaller (ctx_of ''alice'' 0) (sm_alice 5) 5 =
     Inl (\<lparr>err = ErrNotEnoughBalance, failureStatus = ReceiptStatus_ErrNotEnoughBalance\<rparr>, 1) \<and>
   fetchCaller (ctx_of ''alice'' 0) (sm_alice 5) 4 = Inr (\<lparr>Balance = 5, Nonce = 0\<rparr>, 1)"
proof -
  have h: "accounts (sm_alice 5) (Caller (actionCtx (ctx_of ''alice'' 0))) = Some \<lparr>Balance = 5, Nonce = 0\<rparr>"
    by (simp add: sm_alice_def ctx_of_def sm_empty_def)
  show ?thesis
    using h fetchCaller_balance_check [OF h, of 5] fetchCaller_balance_check [OF h, of 4]
    by (simp add: gas_fee_def ctx_of_def)
qed

text \<open>
  C3. Settlement fails fatally, with no receipt, when the block gas limit is below the
  intrinsic gas. Otherwise, when the gas hook accepts the fee and the caller's account
  loads, the fee is deposited, the caller's nonce becomes the larger of its nonce and
  the action's nonce, the account is stored, and the receipt carries the given status
  and logs, the block height, the action hash, the intrinsic gas as gas consumed and
  the protocol address.
\<close>

theorem settleAction_receipt:
  "(GasLimit (blkCtx ctx) < IntrinsicGas (actionCtx ctx) \<longrightarrow>
      settleAction p ctx sm status gasFee logs = Inl ErrHitGasLimit) \<and>
   (\<not> GasLimit (blkCtx ctx) < IntrinsicGas (actionCtx ctx) \<and>
    depositGas p ctx sm gasFee = Inr sm1 \<and>
    accounts sm1 (Caller (actionCtx ctx)) = Some acc \<longrightarrow>
      settleAction p ctx sm status gasFee logs =
        Inr (\<lparr>Status = status,
              r_BlockHeight = BlockHeight (blkCtx ctx),
              r_ActionHash = ActionHash (actionCtx ctx),
              GasConsumed = IntrinsicGas (actionCtx ctx),
              ContractAddress = addr p,
              Logs = logs\<rparr>,
             sm1\<lparr>accounts := (accounts sm1)(Caller (actionCtx ctx) \<mapsto>
                     acc\<lparr>Nonce := max (Nonce acc) (a_Nonce (actionCtx ctx))\<rparr>)\<rparr>))"
  by (auto simp: settleAction_def increaseNonce_def LoadAccount_def StoreAccount_def max_def)

theorem settleAction_receipt_witness:
  "settleAction proto0 (ctx_of ''alice'' 0) (sm_alice 5) ReceiptStatus_ErrCandidateNotExist 1 [] =
     Inr (\<lparr>Status = ReceiptStatus_ErrCandidateNotExist, r_BlockHeight = 1, r_ActionHash = ''h'',
           GasConsumed = 1, ContractAddress = ''staking'', Logs = []\<rparr>,
          sm_empty\<lparr>accounts := [''alice'' \<mapsto> \<lparr>Balance = 4, Nonce = 1\<rparr>], reward_pool := 1\<rparr>) \<and>
   settleAction proto0
     ((ctx_of ''alice'' 0)\<lparr>blkCtx := \<lparr>BlockHeight = 1, BlockTimeStamp = 0, GasLimit = 0\<rparr>\<rparr>)
     (sm_alice 5) ReceiptStatus_Success 1 [] = Inl ErrHitGasLimit"
proof -
  have d: "depositGas proto0 (ctx_of ''alice'' 0) (sm_alice 5) 1 =
             Inr (sm_empty\<lparr>accounts := [''alice'' \<mapsto> \<lparr>Balance = 4, Nonce = 0\<rparr>], reward_pool := 1\<rparr>)"
    by (simp add: proto0_def deposit_gas_def LoadAccount_def StoreAccount_def sm_alice_def
          sm_empty_def ctx_of_def)
  show ?thesis
    using settleAction_receipt [of "ctx_of ''alice'' 0" proto0 "sm_alice 5"
            ReceiptStatus_ErrCandidateNotExist 1 "[]"
            "sm_empty\<lparr>accounts := [''alice'' \<mapsto> \<lparr>Balance = 4, Nonce = 0\<rparr>], reward_pool := 1\<rparr>"
            "\<lparr>Balance = 4, Nonce = 0\<rparr>"]
          settleAction_receipt [of
            "(ctx_of ''alice'' 0)\<lparr>blkCtx := \<lparr>BlockHeight = 1, BlockTimeStamp = 0, GasLimit = 0\<rparr>\<rparr>"
            proto0 "sm_alice 5" ReceiptStatus_Success 1 "[]"]
          d
    by (simp add: ctx_of_def proto0_def sm_empty_def)
qed

section \<open>Receipts without success\<close>

text \<open>
  In every handler, each return with a status other than Success is a settlement on
  the state the handler was called with: nothing has been written before it.
\<close>

lemma failed_settlementI1:
  "fetchCaller ctx sm amt = Inl (fe, g) \<Longrightarrow> failureStatus fe \<noteq> ReceiptStatus_Failure \<Longrightarrow>
   settleAction p ctx sm st g [] = Inr (r, sm') \<Longrightarrow> failed_settlement p ctx sm r sm'"
  unfolding failed_settlement_def using fetchCaller_Inl by blast

lemma failed_settlementI2:
  "fetchCaller ctx sm amt = Inr (acc, g) \<Longrightarrow>
   settleAction p ctx sm st g [] = Inr (r, sm') \<Longrightarrow> failed_settlement p ctx sm r sm'"
  unfolding failed_settlement_def using fetchCaller_Inr by blast

lemma createStake_not_Success:
  "handleCreateStake p cc ctx act sm = Inr (r, cc', sm') \<Longrightarrow> Status r \<noteq> ReceiptStatus_Success \<Longrightarrow>
   cc' = cc \<and> failed_settlement p ctx sm r sm'"
  unfolding handleCreateStake_def Let_def
  by (auto simp: settled_Inr split: handler_splits dest: settleAction_Status
           intro: failed_settlementI1 failed_settlementI2)

lemma unstake_not_Success:
  "handleUnstake p cc ctx act sm = Inr (r, cc', sm') \<Longrightarrow> Status r \<noteq> ReceiptStatus_Success \<Longrightarrow>
   cc' = cc \<and> failed_settlement p ctx sm r sm'"
  unfolding handleUnstake_def Let_def
  by (auto simp: settled_Inr split: handler_splits dest: settleAction_Status
           intro: failed_settlementI1 failed_settlementI2)

lemma withdrawStake_not_Success:
  "handleWithdrawStake p cc ctx act sm = Inr (r, cc', sm') \<Longrightarrow> Status r \<noteq> ReceiptStatus_Success \<Longrightarrow>
   cc' = cc \<and> failed_settlement p ctx sm r sm'"
  unfolding handleWithdrawStake_def Let_def
  by (auto simp: settled_Inr split: handler_splits dest: settleAction_Status
           intro: failed_settlementI1 failed_settlementI2)

lemma changeCandidate_not_Success:
  "handleChangeCandidate p cc ctx act sm = Inr (r, cc', sm') \<Longrightarrow> Status r \<noteq> ReceiptStatus_Success \<Longrightarrow>
   cc' = cc \<and> failed_settlement p ctx sm r sm'"
  unfolding handleChangeCandidate_def Let_def
  by (auto simp: settled_Inr split: handler_splits dest: settleAction_Status
           intro: failed_settlementI1 failed_settlementI2)

lemma transferStake_not_Success:
  "handleTransferStake p cc ctx act sm = Inr (r, cc', sm') \<Longrightarrow> Status r \<noteq> ReceiptStatus_Success \<Longrightarrow>
   cc' = cc \<and> failed_settlement p ctx sm r sm'"
  unfolding handleTransferStake_def Let_def
  by (auto simp: settled_Inr split: handler_splits dest: settleAction_Status
           intro: failed_settlementI1 failed_settlementI2)

lemma depositToStake_not_Success:
  "handleDepositToStake p cc ctx act sm = Inr (r, cc', sm') \<Longrightarrow> Status r \<noteq> ReceiptStatus_Success \<Longrightarrow>
   cc' = cc \<and> failed_settlement p ctx sm r sm'"
  unfolding handleDepositToStake_def Let_def
  by (auto simp: settled_Inr split: handler_splits dest: settleAction_Status
           intro: failed_settlementI1 failed_settlementI2)

lemma restake_not_Success:
  "handleRestake p cc ctx act sm = Inr (r, cc', sm') \<Longrightarrow> Status r \<noteq> ReceiptStatus_Success \<Longrightarrow>
   cc' = cc \<and> failed_settlement p ctx sm r sm'"
  unfolding handleRestake_def Let_def
  by (auto simp: settled_Inr split: handler_splits dest: settleAction_Status
           intro: failed_settlementI1 failed_settlementI2)

lemma candidateRegister_not_Success:
  "handleCandidateRegister p cc ctx act sm = Inr (r, cc', sm') \<Longrightarrow> Status r \<noteq> ReceiptStatus_Success \<Longrightarrow>
   cc' = cc \<and> failed_settlement p ctx sm r sm'"
  unfolding handleCandidateRegister_def Let_def
  by (auto simp: settled_Inr split: handler_splits dest: settleAction_Status
           intro: failed_settlementI1 failed_settlementI2)

lemma candidateUpdate_not_Success:
  "handleCandidateUpdate p cc ctx act sm = Inr (r, cc', sm') \<Longrightarrow> Status r \<noteq> ReceiptStatus_Success \<Longrightarrow>
   cc' = cc \<and> failed_settlement p ctx sm r sm'"
  unfolding handleCandidateUpdate_def Let_def
  by (auto simp: settled_Inr split: handler_splits dest: settleAction_Status
           intro: failed_settlementI1 failed_settlementI2)

lemma handle_not_Success:
  "handle p cc ctx act sm = Inr (r, cc', sm') \<Longrightarrow> Status r \<noteq> ReceiptStatus_Success \<Longrightarrow>
   cc' = cc \<and> failed_settlement p ctx sm r sm'"
  by (cases act)
     (simp_all add: createStake_not_Success unstake_not_Success withdrawStake_not_Success
        changeCandidate_not_Success transferStake_not_Success depositToStake_not_Success
        restake_not_Success candidateRegister_not_Success candidateUpdate_not_Success)

text \<open>
  C1. For each of the nine handlers and every action: when the handler returns a
  receipt whose status is not Success, the gas hook has been paid (the gas fee, or
  what the caller's balance covers of it) on the state before the action, the caller's
  nonce has been raised to at least the action's nonce, and nothing else has happened:
  the candidate center is the same, and, the gas hook being one that leaves the
  staking tables alone, the buckets, both bucket indices, the candidates and the
  bucket count are exactly what they were.
\<close>

theorem failure_receipt_settles_and_keeps_staking_state:
  assumes run: "handle p cc ctx act sm = Inr (receipt, cc', sm')"
    and ns: "Status receipt \<noteq> ReceiptStatus_Success"
    and hook: "\<forall>a sm1. depositGas p ctx sm a = Inr sm1 \<longrightarrow> staking_tables sm1 = staking_tables sm"
  shows "cc' = cc \<and>
     (\<exists>gasFee sm1.
        (gasFee = gas_fee ctx \<or>
         (\<exists>caller. accounts sm (Caller (actionCtx ctx)) = Some caller \<and>
                    gasFee = min (gas_fee ctx) (Balance caller))) \<and>
        depositGas p ctx sm gasFee = Inr sm1 \<and>
        increaseNonce sm1 (Caller (actionCtx ctx)) (a_Nonce (actionCtx ctx)) = Inr sm') \<and>
     (\<exists>acc. accounts sm' (Caller (actionCtx ctx)) = Some acc \<and> a_Nonce (actionCtx ctx) \<le> Nonce acc) \<and>
     staking_tables sm' = staking_tables sm"
proof -
  from handle_not_Success [OF run ns] obtain st gasFee where
    s: "settleAction p ctx sm st gasFee [] = Inr (receipt, sm')" and
    f: "gasFee = gas_fee ctx \<or>
         (\<exists>caller. accounts sm (Caller (actionCtx ctx)) = Some caller \<and>
                    gasFee = min (gas_fee ctx) (Balance caller))" and c: "cc' = cc"
    unfolding failed_settlement_def by blast
  from settleAction_steps [OF s] obtain sm1 where
    d: "depositGas p ctx sm gasFee = Inr sm1" and
    n: "increaseNonce sm1 (Caller (actionCtx ctx)) (a_Nonce (actionCtx ctx)) = Inr sm'"
    by blast
  have t: "staking_tables sm' = staking_tables sm"
    using increaseNonce_tables [OF n] hook d by simp
  show ?thesis
    using c f d n t increaseNonce_nonce [OF n] by blast
qed

lemma createStake_unknown_candidate_run:
  "handle proto0 [cand_bob] (ctx_of ''alice'' 0)
       (ActCreateStake \<lparr>cs_Candidate = ''nobody'', cs_Amount = 100, cs_Duration = 7, cs_AutoStake = False\<rparr>)
       (sm_bucket 1000 (bucket0 ''carol'' 0 False))
     = Inr (\<lparr>Status = ReceiptStatus_ErrCandidateNotExist, r_BlockHeight = 1, r_ActionHash = ''h'',
             GasConsumed = 1, ContractAddress = ''staking'', Logs = []\<rparr>,
            [cand_bob],
            (sm_bucket 1000 (bucket0 ''carol'' 0 False))
              \<lparr>accounts := [''alice'' \<mapsto> \<lparr>Balance = 999, Nonce = 1\<rparr>], reward_pool := 1\<rparr>)"
  by (simp add: handleCreateStake_def fetchCaller_def LoadAccount_def proto0_def ctx_of_def
        sm_bucket_def GetByName_def cand_bob_def settled_def settleAction_def deposit_gas_def
        StoreAccount_def increaseNonce_def)

theorem failure_receipt_settles_and_keeps_staking_state_witness:
  "(\<exists>acc. accounts ((sm_bucket 1000 (bucket0 ''carol'' 0 False))
              \<lparr>accounts := [''alice'' \<mapsto> \<lparr>Balance = 999, Nonce = 1\<rparr>], reward_pool := 1\<rparr>)
            (Caller (actionCtx (ctx_of ''alice'' 0))) = Some acc \<and>
          a_Nonce (actionCtx (ctx_of ''alice'' 0)) \<le> Nonce acc) \<and>
   staking_tables ((sm_bucket 1000 (bucket0 ''carol'' 0 False))
              \<lparr>accounts := [''alice'' \<mapsto> \<lparr>Balance = 999, Nonce = 1\<rparr>], reward_pool := 1\<rparr>)
     = staking_tables (sm_bucket 1000 (bucket0 ''carol'' 0 False))"
proof -
  have ns: "Status \<lparr>Status = ReceiptStatus_ErrCandidateNotExist, r_BlockHeight = 1, r_ActionHash = ''h'',
             GasConsumed = 1, ContractAddress = ''staking'', Logs = []\<rparr> \<noteq> ReceiptStatus_Success"
    by simp
  have hook: "\<forall>a sm1. depositGas proto0 (ctx_of ''alice'' 0) (sm_bucket 1000 (bucket0 ''carol'' 0 False)) a = Inr sm1
                \<longrightarrow> staking_tables sm1 = staking_tables (sm_bucket 1000 (bucket0 ''carol'' 0 False))"
    by (simp add: proto0_def deposit_gas_tables)
  show ?thesis
    using failure_receipt_settles_and_keeps_staking_state [OF createStake_unknown_candidate_run ns hook]
    by blast
qed

section \<open>Change of candidate\<close>

text \<open>
  C10, with the condition on the caller's balance. \<open>handleChangeCandidate\<close> looks the
  new candidate name up before it fetches the bucket, and after it has fetched the
  caller. For an action whose new candidate name is unknown: whatever the bucket index,
  the owner of the bucket or its kind, a receipt carries the candidate-not-exist or the
  not-enough-balance status, never a bucket status; when the caller's balance covers
  the gas fee the handler is the settlement with status candidate-not-exist on the
  unchanged state, and that receipt is returned whenever the settlement goes through;
  when the balance does not cover the gas fee the handler is the settlement with
  status not-enough-balance, for the whole balance as fee, and every receipt it
  returns carries that status.
\<close>

theorem changeCandidate_resolves_name_first:
  assumes unknown: "GetByName cc (cc_Candidate act) = None"
  shows "(\<forall>r cc' sm'. handleChangeCandidate p cc ctx act sm = Inr (r, cc', sm') \<longrightarrow>
            Status r = ReceiptStatus_ErrCandidateNotExist \<or> Status r = ReceiptStatus_ErrNotEnoughBalance) \<and>
         (accounts sm (Caller (actionCtx ctx)) = Some caller \<and> gas_fee ctx \<le> Balance caller \<longrightarrow>
            handleChangeCandidate p cc ctx act sm =
              settled cc (settleAction p ctx sm ReceiptStatus_ErrCandidateNotExist (gas_fee ctx) [])) \<and>
         (accounts sm (Caller (actionCtx ctx)) = Some caller \<and> gas_fee ctx \<le> Balance caller \<and>
          \<not> GasLimit (blkCtx ctx) < IntrinsicGas (actionCtx ctx) \<and>
          depositGas p ctx sm (gas_fee ctx) = Inr sm1 \<and>
          accounts sm1 (Caller (actionCtx ctx)) = Some acc1 \<longrightarrow>
            (\<exists>r sm'. handleChangeCandidate p cc ctx act sm = Inr (r, cc, sm') \<and>
                     Status r = ReceiptStatus_ErrCandidateNotExist)) \<and>
         (accounts sm (Caller (actionCtx ctx)) = Some caller \<and> Balance caller < gas_fee ctx \<longrightarrow>
            handleChangeCandidate p cc ctx act sm =
              settled cc (settleAction p ctx sm ReceiptStatus_ErrNotEnoughBalance (Balance caller) []) \<and>
            (\<forall>r cc' sm'. handleChangeCandidate p cc ctx act sm = Inr (r, cc', sm') \<longrightarrow>
               Status r = ReceiptStatus_ErrNotEnoughBalance))"
proof (intro conjI allI impI)
  fix r cc' sm'
  assume run: "handleChangeCandidate p cc ctx act sm = Inr (r, cc', sm')"
  show "Status r = ReceiptStatus_ErrCandidateNotExist \<or> Status r = ReceiptStatus_ErrNotEnoughBalance"
    using run unknown unfolding handleChangeCandidate_def
    by (auto simp: settled_Inr fetchCaller_def Let_def split: handler_splits dest: settleAction_Status)
next
  assume h: "accounts sm (Caller (actionCtx ctx)) = Some caller \<and> gas_fee ctx \<le> Balance caller"
  then have "fetchCaller ctx sm 0 = Inr (caller, gas_fee ctx)"
    by (simp add: fetchCaller_enough)
  then show "handleChangeCandidate p cc ctx act sm =
              settled cc (settleAction p ctx sm ReceiptStatus_ErrCandidateNotExist (gas_fee ctx) [])"
    using unknown by (simp add: handleChangeCandidate_def)
next
  assume h: "accounts sm (Caller (actionCtx ctx)) = Some caller \<and> gas_fee ctx \<le> Balance caller \<and>
          \<not> GasLimit (blkCtx ctx) < IntrinsicGas (actionCtx ctx) \<and>
          depositGas p ctx sm (gas_fee ctx) = Inr sm1 \<and>
          accounts sm1 (Caller (actionCtx ctx)) = Some acc1"
  then have f: "fetchCaller ctx sm 0 = Inr (caller, gas_fee ctx)"
    by (simp add: fetchCaller_enough)
  have "\<exists>r sm'. settleAction p ctx sm ReceiptStatus_ErrCandidateNotExist (gas_fee ctx) [] = Inr (r, sm')
           \<and> Status r = ReceiptStatus_ErrCandidateNotExist"
    using h by (simp add: settleAction_def increaseNonce_def LoadAccount_def StoreAccount_def)
  then show "\<exists>r sm'. handleChangeCandidate p cc ctx act sm = Inr (r, cc, sm') \<and>
                     Status r = ReceiptStatus_ErrCandidateNotExist"
    using f unknown by (auto simp: handleChangeCandidate_def settled_def)
next
  assume u: "accounts sm (Caller (actionCtx ctx)) = Some caller \<and> Balance caller < gas_fee ctx"
  then have "fetchCaller ctx sm 0 =
     Inl (\<lparr>err = ErrNotEnoughBalance, failureStatus = ReceiptStatus_ErrNotEnoughBalance\<rparr>, Balance caller)"
    using fetchCaller_short [of sm ctx caller 0] by simp
  then show "handleChangeCandidate p cc ctx act sm =
              settled cc (settleAction p ctx sm ReceiptStatus_ErrNotEnoughBalance (Balance caller) [])"
    by (simp add: handleChangeCandidate_def)
next
  fix r cc' sm'
  assume u: "accounts sm (Caller (actionCtx ctx)) = Some caller \<and> Balance caller < gas_fee ctx"
    and run: "handleChangeCandidate p cc ctx act sm = Inr (r, cc', sm')"
  from u have "fetchCaller ctx sm 0 =
     Inl (\<lparr>err = ErrNotEnoughBalance, failureStatus = ReceiptStatus_ErrNotEnoughBalance\<rparr>, Balance caller)"
    using fetchCaller_short [of sm ctx caller 0] by simp
  with run show "Status r = ReceiptStatus_ErrNotEnoughBalance"
    by (auto simp: handleChangeCandidate_def settled_Inr dest: settleAction_Status)
qed

theorem changeCandidate_resolves_name_first_witness:
  "GetByName [cand_bob] (cc_Candidate \<lparr>cc_Candidate = ''nobody'', cc_BucketIndex = 0\<rparr>) = None \<and>
   b_Owner (bucket0 ''carol'' 0 False) \<noteq> Caller (actionCtx (ctx_of ''alice'' 0)) \<and>
   (\<exists>r sm'. handleChangeCandidate proto0 [cand_bob] (ctx_of ''alice'' 0)
               \<lparr>cc_Candidate = ''nobody'', cc_BucketIndex = 0\<rparr>
               (sm_bucket 1000 (bucket0 ''carol'' 0 False)) = Inr (r, [cand_bob], sm') \<and>
            Status r = ReceiptStatus_ErrCandidateNotExist)"
proof -
  have u: "GetByName [cand_bob] (cc_Candidate \<lparr>cc_Candidate = ''nobody'', cc_BucketIndex = 0\<rparr>) = None"
    by (simp add: GetByName_def cand_bob_def)
  have a: "accounts (sm_bucket 1000 (bucket0 ''carol'' 0 False)) (Caller (actionCtx (ctx_of ''alice'' 0)))
             = Some \<lparr>Balance = 1000, Nonce = 0\<rparr>"
    by (simp add: sm_bucket_def ctx_of_def)
  have g: "gas_fee (ctx_of ''alice'' 0) \<le> Balance \<lparr>Balance = 1000, Nonce = 0\<rparr>" "\<not> GasLimit (blkCtx (ctx_of ''alice'' 0)) < IntrinsicGas (actionCtx (ctx_of ''alice'' 0))"
    by (simp_all add: gas_fee_def ctx_of_def)
  have d: "depositGas proto0 (ctx_of ''alice'' 0) (sm_bucket 1000 (bucket0 ''carol'' 0 False))
               (gas_fee (ctx_of ''alice'' 0))
             = Inr ((sm_bucket 1000 (bucket0 ''carol'' 0 False))
                      \<lparr>accounts := [''alice'' \<mapsto> \<lparr>Balance = 999, Nonce = 0\<rparr>], reward_pool := 1\<rparr>)"
    by (simp add: proto0_def deposit_gas_def LoadAccount_def StoreAccount_def sm_bucket_def ctx_of_def
          gas_fee_def)
  have a1: "accounts ((sm_bucket 1000 (bucket0 ''carol'' 0 False))
                      \<lparr>accounts := [''alice'' \<mapsto> \<lparr>Balance = 999, Nonce = 0\<rparr>], reward_pool := 1\<rparr>)
              (Caller (actionCtx (ctx_of ''alice'' 0))) = Some \<lparr>Balance = 999, Nonce = 0\<rparr>"
    by (simp add: ctx_of_def)
  have w: "\<exists>r sm'. handleChangeCandidate proto0 [cand_bob] (ctx_of ''alice'' 0)
               \<lparr>cc_Candidate = ''nobody'', cc_BucketIndex = 0\<rparr>
               (sm_bucket 1000 (bucket0 ''carol'' 0 False)) = Inr (r, [cand_bob], sm') \<and>
            Status r = ReceiptStatus_ErrCandidateNotExist"
    using a g d a1
      changeCandidate_resolves_name_first [OF u, of proto0 "ctx_of ''alice'' 0"
        "sm_bucket 1000 (bucket0 ''carol'' 0 False)" "\<lparr>Balance = 1000, Nonce = 0\<rparr>"
        "(sm_bucket 1000 (bucket0 ''carol'' 0 False))
                      \<lparr>accounts := [''alice'' \<mapsto> \<lparr>Balance = 999, Nonce = 0\<rparr>], reward_pool := 1\<rparr>"
        "\<lparr>Balance = 999, Nonce = 0\<rparr>"]
    by blast
  have o: "b_Owner (bucket0 ''carol'' 0 False) \<noteq> Caller (actionCtx (ctx_of ''alice'' 0))"
    by (simp add: bucket0_def ctx_of_def)
  show ?thesis
    using u o w by blast
qed

text \<open>
  Without the condition on the balance the status is another one: a caller with
  balance 0 who names an unknown candidate gets the not-enough-balance status.
\<close>

theorem changeCandidate_resolves_name_first_counterexample:
  "GetByName [cand_bob] ''nobody'' = None \<and>
   handleChangeCandidate proto0 [cand_bob] (ctx_of ''alice'' 0)
       \<lparr>cc_Candidate = ''nobody'', cc_BucketIndex = 0\<rparr>
       (sm_bucket 0 (bucket0 ''alice'' 0 False))
     = Inr (\<lparr>Status = ReceiptStatus_ErrNotEnoughBalance, r_BlockHeight = 1, r_ActionHash = ''h'',
             GasConsumed = 1, ContractAddress = ''staking'', Logs = []\<rparr>,
            [cand_bob],
            (sm_bucket 0 (bucket0 ''alice'' 0 False))
              \<lparr>accounts := [''alice'' \<mapsto> \<lparr>Balance = 0, Nonce = 1\<rparr>]\<rparr>)"
  by (simp add: handleChangeCandidate_def fetchCaller_def LoadAccount_def proto0_def ctx_of_def
        sm_bucket_def GetByName_def cand_bob_def settled_def settleAction_def deposit_gas_def
        StoreAccount_def increaseNonce_def)

section \<open>Withdrawal\<close>

lemma fetchBucket_owned:
  "bucket_tbl sm i = Some b \<Longrightarrow> b_Owner b = Caller (actionCtx ctx) \<Longrightarrow>
   fetchBucket cc ctx sm i True True = Inr b"
  by (simp add: fetchBucket_def getBucket_def)

text \<open>
  C4, with the condition on the caller's balance. For a bucket that the caller owns,
  the caller's balance covering the gas fee: \<open>handleWithdrawStake\<close> settles with
  status withdraw-before-unstake when the unstake start time is the zero sentinel
  (which the source recognises by its Unix second being 0); with status
  withdraw-before-maturity when the block time is strictly before the unstake start
  time plus the waiting period; and otherwise, from exactly that instant on, it
  deletes the bucket and its entries in both indices, credits the owner with the
  staked amount and settles with status Success. The status of any receipt it returns
  is the one of these three that applies. When the owner's balance does not cover the
  gas fee the handler is the settlement with status not-enough-balance, for the whole
  balance as fee, and every receipt it returns carries that status.
\<close>

theorem withdrawStake_time_checks:
  assumes caller: "accounts sm (Caller (actionCtx ctx)) = Some withdrawer"
    and bucket: "bucket_tbl sm (ws_BucketIndex act) = Some bucket"
    and owner: "b_Owner bucket = Caller (actionCtx ctx)"
  shows "(Balance withdrawer < gas_fee ctx \<longrightarrow>
            handleWithdrawStake p cc ctx act sm =
              settled cc (settleAction p ctx sm ReceiptStatus_ErrNotEnoughBalance (Balance withdrawer) []) \<and>
            (\<forall>r cc' sm'. handleWithdrawStake p cc ctx act sm = Inr (r, cc', sm') \<longrightarrow>
               Status r = ReceiptStatus_ErrNotEnoughBalance)) \<and>
         (gas_fee ctx \<le> Balance withdrawer \<longrightarrow>
         (Unix (UnstakeStartTime bucket) = 0 \<longrightarrow>
            handleWithdrawStake p cc ctx act sm =
              settled cc (settleAction p ctx sm ReceiptStatus_ErrWithdrawBeforeUnstake (gas_fee ctx) [])) \<and>
         (Unix (UnstakeStartTime bucket) \<noteq> 0 \<and>
          BlockTimeStamp (blkCtx ctx) < UnstakeStartTime bucket + sint (WithdrawWaitingPeriod p) \<longrightarrow>
            handleWithdrawStake p cc ctx act sm =
              settled cc (settleAction p ctx sm ReceiptStatus_ErrWithdrawBeforeMaturity (gas_fee ctx) [])) \<and>
         (Unix (UnstakeStartTime bucket) \<noteq> 0 \<and>
          UnstakeStartTime bucket + sint (WithdrawWaitingPeriod p) \<le> BlockTimeStamp (blkCtx ctx) \<longrightarrow>
            handleWithdrawStake p cc ctx act sm =
              settled cc (settleAction p ctx
                (sm\<lparr>bucket_tbl := (bucket_tbl sm)(ws_BucketIndex act := None),
                    cand_buckets := (cand_buckets sm)(b_Candidate bucket :=
                                       cand_buckets sm (b_Candidate bucket) - {ws_BucketIndex act}),
                    voter_buckets := (voter_buckets sm)(b_Owner bucket :=
                                       voter_buckets sm (b_Owner bucket) - {ws_BucketIndex act}),
                    accounts := (accounts sm)(Caller (actionCtx ctx) \<mapsto>
                                   withdrawer\<lparr>Balance := Balance withdrawer + StakedAmount bucket\<rparr>)\<rparr>)
                ReceiptStatus_Success (gas_fee ctx)
                [createLog p ctx ''withdrawStake'' None (Caller (actionCtx ctx)) None])) \<and>
         (\<forall>r cc' sm'. handleWithdrawStake p cc ctx act sm = Inr (r, cc', sm') \<longrightarrow>
            Status r =
              (if Unix (UnstakeStartTime bucket) = 0 then ReceiptStatus_ErrWithdrawBeforeUnstake
               else if BlockTimeStamp (blkCtx ctx) < UnstakeStartTime bucket + sint (WithdrawWaitingPeriod p)
               then ReceiptStatus_ErrWithdrawBeforeMaturity
               else ReceiptStatus_Success)))"
proof -
  have b: "fetchBucket cc ctx sm (ws_BucketIndex act) True True = Inr bucket"
    using bucket owner by (rule fetchBucket_owned)
  have short: ?thesis if u: "Balance withdrawer < gas_fee ctx"
  proof -
    have f: "fetchCaller ctx sm 0 =
       Inl (\<lparr>err = ErrNotEnoughBalance, failureStatus = ReceiptStatus_ErrNotEnoughBalance\<rparr>,
            Balance withdrawer)"
      using fetchCaller_short [OF caller, of 0] u by simp
    show ?thesis
      using u by (auto simp: handleWithdrawStake_def f settled_Inr dest: settleAction_Status)
  qed
  have enough: ?thesis if fee: "gas_fee ctx \<le> Balance withdrawer"
  proof -
    have f: "fetchCaller ctx sm 0 = Inr (withdrawer, gas_fee ctx)"
      using caller fee by (simp add: fetchCaller_enough)
    show ?thesis
      using fee
      by (auto simp: handleWithdrawStake_def f b Before_def time_Add_def delBucket_def
            delCandBucketIndex_def delVoterBucketIndex_def AddBalance_def StoreAccount_def
            settled_Inr dest: settleAction_Status)
  qed
  show ?thesis
    using short enough by (cases "Balance withdrawer < gas_fee ctx") simp_all
qed

theorem withdrawStake_time_checks_witness:
  "(\<exists>r sm'. handleWithdrawStake proto0 [cand_bob] (ctx_of ''alice'' 259202000000000)
              \<lparr>ws_BucketIndex = 0\<rparr> (sm_bucket 1000 (bucket0 ''alice'' 2000000000 False))
            = Inr (r, [cand_bob], sm') \<and>
          Status r = ReceiptStatus_Success \<and> bucket_tbl sm' 0 = None \<and>
          voter_buckets sm' ''alice'' = {} \<and> cand_buckets sm' ''bob'' = {} \<and>
          accounts sm' ''alice'' = Some \<lparr>Balance = 1049, Nonce = 1\<rparr>) \<and>
   (\<exists>r sm'. handleWithdrawStake proto0 [cand_bob] (ctx_of ''alice'' 259201999999999)
              \<lparr>ws_BucketIndex = 0\<rparr> (sm_bucket 1000 (bucket0 ''alice'' 2000000000 False))
            = Inr (r, [cand_bob], sm') \<and>
          Status r = ReceiptStatus_ErrWithdrawBeforeMaturity \<and>
          bucket_tbl sm' 0 = Some (bucket0 ''alice'' 2000000000 False)) \<and>
   (\<exists>r sm'. handleWithdrawStake proto0 [cand_bob] (ctx_of ''alice'' 259202000000000)
              \<lparr>ws_BucketIndex = 0\<rparr> (sm_bucket 1000 (bucket0 ''alice'' 0 False))
            = Inr (r, [cand_bob], sm') \<and>
          Status r = ReceiptStatus_ErrWithdrawBeforeUnstake)"
proof -
  have w: "sint (WithdrawWaitingPeriod proto0) = 259200000000000"
    by (simp add: proto0_def Hour_def)
  have a: "accounts (sm_bucket 1000 (bucket0 ''alice'' u False)) (Caller (actionCtx (ctx_of ''alice'' t)))
             = Some \<lparr>Balance = 1000, Nonce = 0\<rparr>" for u t
    by (simp add: sm_bucket_def ctx_of_def)
  have g: "gas_fee (ctx_of ''alice'' t) \<le> Balance \<lparr>Balance = 1000, Nonce = 0\<rparr>" for t
    by (simp add: gas_fee_def ctx_of_def)
  have b: "bucket_tbl (sm_bucket 1000 (bucket0 ''alice'' u False)) (ws_BucketIndex \<lparr>ws_BucketIndex = 0\<rparr>)
             = Some (bucket0 ''alice'' u False)" for u
    by (simp add: sm_bucket_def)
  have ow: "b_Owner (bucket0 ''alice'' u False) = Caller (actionCtx (ctx_of ''alice'' t))" for u t
    by (simp add: bucket0_def ctx_of_def)
  note T = withdrawStake_time_checks [where p = proto0 and cc = "[cand_bob]"
               and act = "\<lparr>ws_BucketIndex = 0\<rparr>" and withdrawer = "\<lparr>Balance = 1000, Nonce = 0\<rparr>"]
  note T1 = T [where ctx = "ctx_of ''alice'' 259202000000000"
                 and sm = "sm_bucket 1000 (bucket0 ''alice'' 2000000000 False)"
                 and bucket = "bucket0 ''alice'' 2000000000 False", OF a b ow, THEN conjunct2, THEN mp, OF g]
  note T2 = T [where ctx = "ctx_of ''alice'' 259201999999999"
                 and sm = "sm_bucket 1000 (bucket0 ''alice'' 2000000000 False)"
                 and bucket = "bucket0 ''alice'' 2000000000 False", OF a b ow, THEN conjunct2, THEN mp, OF g]
  note T3 = T [where ctx = "ctx_of ''alice'' 259202000000000"
                 and sm = "sm_bucket 1000 (bucket0 ''alice'' 0 False)"
                 and bucket = "bucket0 ''alice'' 0 False", OF a b ow, THEN conjunct2, THEN mp, OF g]
  have c1: "\<exists>r sm'. handleWithdrawStake proto0 [cand_bob] (ctx_of ''alice'' 259202000000000)
              \<lparr>ws_BucketIndex = 0\<rparr> (sm_bucket 1000 (bucket0 ''alice'' 2000000000 False))
            = Inr (r, [cand_bob], sm') \<and>
          Status r = ReceiptStatus_Success \<and> bucket_tbl sm' 0 = None \<and>
          voter_buckets sm' ''alice'' = {} \<and> cand_buckets sm' ''bob'' = {} \<and>
          accounts sm' ''alice'' = Some \<lparr>Balance = 1049, Nonce = 1\<rparr>"
    using T1 w
    by (simp add: Unix_def bucket0_def ctx_of_def gas_fee_def sm_bucket_def settled_def
          settleAction_def proto0_def deposit_gas_def LoadAccount_def StoreAccount_def
          increaseNonce_def createLog_def)
  have c2: "\<exists>r sm'. handleWithdrawStake proto0 [cand_bob] (ctx_of ''alice'' 259201999999999)
              \<lparr>ws_BucketIndex = 0\<rparr> (sm_bucket 1000 (bucket0 ''alice'' 2000000000 False))
            = Inr (r, [cand_bob], sm') \<and>
          Status r = ReceiptStatus_ErrWithdrawBeforeMaturity \<and>
          bucket_tbl sm' 0 = Some (bucket0 ''alice'' 2000000000 False)"
    using T2 w
    by (simp add: Unix_def bucket0_def ctx_of_def gas_fee_def sm_bucket_def settled_def
          settleAction_def proto0_def deposit_gas_def LoadAccount_def StoreAccount_def
          increaseNonce_def createLog_def)
  have c3: "\<exists>r sm'. handleWithdrawStake proto0 [cand_bob] (ctx_of ''alice'' 259202000000000)
              \<lparr>ws_BucketIndex = 0\<rparr> (sm_bucket 1000 (bucket0 ''alice'' 0 False))
            = Inr (r, [cand_bob], sm') \<and>
          Status r = ReceiptStatus_ErrWithdrawBeforeUnstake"
    using T3 w
    by (simp add: Unix_def bucket0_def ctx_of_def gas_fee_def sm_bucket_def settled_def
          settleAction_def proto0_def deposit_gas_def LoadAccount_def StoreAccount_def
          increaseNonce_def createLog_def)
  show ?thesis
    using c1 c2 c3 by blast
qed

text \<open>
  Two runs outside these conditions. An owner with balance 0 withdraws a bucket that
  was never unstaked: the status is not-enough-balance. An owner withdraws, after the
  waiting period, a bucket unstaked 5 nanoseconds after the epoch: its Unix second is
  0, and the status is withdraw-before-unstake.
\<close>

theorem withdrawStake_time_checks_counterexample:
  "b_Owner (bucket0 ''alice'' 0 False) = Caller (actionCtx (ctx_of ''alice'' 259202000000000)) \<and>
   UnstakeStartTime (bucket0 ''alice'' 0 False) = 0 \<and>
   handleWithdrawStake proto0 [cand_bob] (ctx_of ''alice'' 259202000000000)
       \<lparr>ws_BucketIndex = 0\<rparr> (sm_bucket 0 (bucket0 ''alice'' 0 False))
     = Inr (\<lparr>Status = ReceiptStatus_ErrNotEnoughBalance, r_BlockHeight = 1, r_ActionHash = ''h'',
             GasConsumed = 1, ContractAddress = ''staking'', Logs = []\<rparr>,
            [cand_bob],
            (sm_bucket 0 (bucket0 ''alice'' 0 False))
              \<lparr>accounts := [''alice'' \<mapsto> \<lparr>Balance = 0, Nonce = 1\<rparr>]\<rparr>) \<and>
   UnstakeStartTime (bucket0 ''alice'' 5 False) \<noteq> 0 \<and>
   UnstakeStartTime (bucket0 ''alice'' 5 False) + sint (WithdrawWaitingPeriod proto0)
     \<le> BlockTimeStamp (blkCtx (ctx_of ''alice'' 259200000000005)) \<and>
   handleWithdrawStake proto0 [cand_bob] (ctx_of ''alice'' 259200000000005)
       \<lparr>ws_BucketIndex = 0\<rparr> (sm_bucket 1000 (bucket0 ''alice'' 5 False))
     = Inr (\<lparr>Status = ReceiptStatus_ErrWithdrawBeforeUnstake, r_BlockHeight = 1, r_ActionHash = ''h'',
             GasConsumed = 1, ContractAddress = ''staking'', Logs = []\<rparr>,
            [cand_bob],
            (sm_bucket 1000 (bucket0 ''alice'' 5 False))
              \<lparr>accounts := [''alice'' \<mapsto> \<lparr>Balance = 999, Nonce = 1\<rparr>], reward_pool := 1\<rparr>)"
  by (simp add: handleWithdrawStake_def fetchCaller_def LoadAccount_def fetchBucket_def getBucket_def
        proto0_def ctx_of_def Hour_def Unix_def
        sm_bucket_def bucket0_def settled_def settleAction_def deposit_gas_def
        StoreAccount_def increaseNonce_def)

section \<open>Deposit to a stake\<close>

lemma fetchBucket_any_owner:
  "bucket_tbl sm i = Some b \<Longrightarrow> fetchBucket cc ctx sm i False True = Inr b"
  by (simp add: fetchBucket_def getBucket_def)

lemma fetchBucket_no_owner_check_status:
  "fetchBucket cc ctx sm i False True = Inl fe \<Longrightarrow>
   failureStatus fe = ReceiptStatus_ErrInvalidBucketIndex \<or> failureStatus fe = ReceiptStatus_Failure"
  by (auto simp: fetchBucket_def getBucket_def split: option.splits if_splits)

lemma fetchCaller_status:
  "fetchCaller ctx sm amt = Inl (fe, g) \<Longrightarrow>
   failureStatus fe = ReceiptStatus_ErrNotEnoughBalance \<or> failureStatus fe = ReceiptStatus_Failure"
  by (auto simp: fetchCaller_def Let_def split: sum.splits if_splits)

lemma depositToStake_never_unauthorized:
  "handleDepositToStake p cc ctx act sm = Inr (r, cc', sm') \<Longrightarrow>
   Status r \<noteq> ReceiptStatus_ErrUnauthorizedOperator"
  unfolding handleDepositToStake_def Let_def
  by (auto simp: settled_Inr split: handler_splits
           dest!: settleAction_Status fetchCaller_status fetchBucket_no_owner_check_status)

lemma fetchBucket_Inr_any:
  "fetchBucket cc ctx sm i co ss = Inr b \<Longrightarrow> bucket_tbl sm i = Some b"
  by (auto simp: fetchBucket_def getBucket_def split: option.splits if_splits)

lemma depositToStake_invalid_type_only_non_auto:
  "handleDepositToStake p cc ctx act sm = Inr (r, cc', sm') \<and>
     Status r = ReceiptStatus_ErrInvalidBucketType \<Longrightarrow>
   \<exists>b. bucket_tbl sm (ds_BucketIndex act) = Some b \<and> \<not> AutoStake b"
  unfolding handleDepositToStake_def Let_def
  by (auto simp: settled_Inr split: handler_splits
           dest!: settleAction_Status fetchCaller_status fetchBucket_no_owner_check_status
                  fetchBucket_Inr_any)

text \<open>
  C5, with the condition on the caller's balance. \<open>handleDepositToStake\<close> fetches
  the bucket without the owner check: no receipt
  of it carries the unauthorized-operator status, whoever the caller is, and a receipt
  with status invalid-bucket-type comes only from a bucket that is not auto-stake. When
  the caller's balance does not cover the amount and the gas fee the handler is the
  settlement with status not-enough-balance, for the gas fee or the whole balance if
  that is less, and every receipt it returns carries that status. For an
  existing bucket, the caller's balance covering the amount and the gas fee: the
  handler settles with status invalid-bucket-type on the unchanged state when the
  bucket is not auto-stake, and a receipt has that status exactly when the bucket is
  not auto-stake. On an auto-stake bucket whose candidate is in the center (amount,
  gas fee and weights not negative, the old weight within the candidate's votes) the
  staked amount grows by the deposit, the candidate's votes lose the old weight and
  gain the new one, the self-stake grows when the bucket is the self-stake bucket,
  the caller is debited, and the handler settles with status Success and writes the
  candidate back to the center.
\<close>

theorem depositToStake_auto_stake_only:
  "(\<forall>r cc' sm'. handleDepositToStake p cc ctx act sm = Inr (r, cc', sm') \<longrightarrow>
       Status r \<noteq> ReceiptStatus_ErrUnauthorizedOperator) \<and>
   (\<forall>r cc' sm'. handleDepositToStake p cc ctx act sm = Inr (r, cc', sm') \<and>
       Status r = ReceiptStatus_ErrInvalidBucketType \<longrightarrow>
       (\<exists>b. bucket_tbl sm (ds_BucketIndex act) = Some b \<and> \<not> AutoStake b)) \<and>
   (accounts sm (Caller (actionCtx ctx)) = Some depositor \<and>
    Balance depositor < ds_Amount act + gas_fee ctx \<longrightarrow>
      handleDepositToStake p cc ctx act sm =
        settled cc (settleAction p ctx sm ReceiptStatus_ErrNotEnoughBalance
                      (min (gas_fee ctx) (Balance depositor)) []) \<and>
      (\<forall>r cc' sm'. handleDepositToStake p cc ctx act sm = Inr (r, cc', sm') \<longrightarrow>
         Status r = ReceiptStatus_ErrNotEnoughBalance)) \<and>
   (accounts sm (Caller (actionCtx ctx)) = Some depositor \<and>
    ds_Amount act + gas_fee ctx \<le> Balance depositor \<and>
    bucket_tbl sm (ds_BucketIndex act) = Some bucket \<longrightarrow>
      (\<not> AutoStake bucket \<longrightarrow>
         handleDepositToStake p cc ctx act sm =
           settled cc (settleAction p ctx sm ReceiptStatus_ErrInvalidBucketType (gas_fee ctx) [])) \<and>
      (\<forall>r cc' sm'. handleDepositToStake p cc ctx act sm = Inr (r, cc', sm') \<longrightarrow>
         (Status r = ReceiptStatus_ErrInvalidBucketType \<longleftrightarrow> \<not> AutoStake bucket)) \<and>
      (AutoStake bucket \<and> GetByOwner cc (b_Candidate bucket) = Some candidate \<and>
       0 \<le> ds_Amount act \<and> 0 \<le> gas_fee ctx \<and>
       0 \<le> calculateVoteWeight p bucket (ContainsSelfStakingBucket cc (ds_BucketIndex act)) \<and>
       calculateVoteWeight p bucket (ContainsSelfStakingBucket cc (ds_BucketIndex act)) \<le> Votes candidate \<and>
       0 \<le> calculateVoteWeight p (bucket\<lparr>StakedAmount := StakedAmount bucket + ds_Amount act\<rparr>)
              (ContainsSelfStakingBucket cc (ds_BucketIndex act)) \<longrightarrow>
         handleDepositToStake p cc ctx act sm =
           (let self = ContainsSelfStakingBucket cc (ds_BucketIndex act);
                bucket1 = bucket\<lparr>StakedAmount := StakedAmount bucket + ds_Amount act\<rparr>;
                candidate1 = candidate
                  \<lparr>Votes := Votes candidate - calculateVoteWeight p bucket self
                              + calculateVoteWeight p bucket1 self,
                   SelfStake := (if self then SelfStake candidate + ds_Amount act
                                 else SelfStake candidate)\<rparr>;
                sm1 = sm\<lparr>bucket_tbl := (bucket_tbl sm)(ds_BucketIndex act \<mapsto> bucket1),
                         candidate_tbl := (candidate_tbl sm)(c_Owner candidate \<mapsto> candidate1),
                         accounts := (accounts sm)(Caller (actionCtx ctx) \<mapsto>
                                        depositor\<lparr>Balance := Balance depositor - ds_Amount act\<rparr>)\<rparr>
            in case settleAction p ctx sm1 ReceiptStatus_Success (gas_fee ctx)
                      [createLog p ctx ''depositToStake'' None (Caller (actionCtx ctx)) None] of
                 Inl e \<Rightarrow> Inl e
               | Inr (receipt, sm2) \<Rightarrow>
                   (case Upsert cc candidate1 of
                      Inl e \<Rightarrow> Inl e
                    | Inr cc1 \<Rightarrow> Inr (receipt, cc1, sm2)))))"
proof (intro conjI allI impI)
  fix r cc' sm'
  assume "handleDepositToStake p cc ctx act sm = Inr (r, cc', sm')"
  then show "Status r \<noteq> ReceiptStatus_ErrUnauthorizedOperator"
    by (rule depositToStake_never_unauthorized)
next
  fix r cc' sm'
  assume "handleDepositToStake p cc ctx act sm = Inr (r, cc', sm') \<and>
       Status r = ReceiptStatus_ErrInvalidBucketType"
  then show "\<exists>b. bucket_tbl sm (ds_BucketIndex act) = Some b \<and> \<not> AutoStake b"
    by (rule depositToStake_invalid_type_only_non_auto)
next
  assume u: "accounts sm (Caller (actionCtx ctx)) = Some depositor \<and>
    Balance depositor < ds_Amount act + gas_fee ctx"
  then have "fetchCaller ctx sm (ds_Amount act) =
     Inl (\<lparr>err = ErrNotEnoughBalance, failureStatus = ReceiptStatus_ErrNotEnoughBalance\<rparr>,
          min (gas_fee ctx) (Balance depositor))"
    by (simp add: fetchCaller_short)
  then show "handleDepositToStake p cc ctx act sm =
        settled cc (settleAction p ctx sm ReceiptStatus_ErrNotEnoughBalance
                      (min (gas_fee ctx) (Balance depositor)) [])"
    by (simp add: handleDepositToStake_def)
next
  fix r cc' sm'
  assume u: "accounts sm (Caller (actionCtx ctx)) = Some depositor \<and>
    Balance depositor < ds_Amount act + gas_fee ctx"
    and run: "handleDepositToStake p cc ctx act sm = Inr (r, cc', sm')"
  from u have "fetchCaller ctx sm (ds_Amount act) =
     Inl (\<lparr>err = ErrNotEnoughBalance, failureStatus = ReceiptStatus_ErrNotEnoughBalance\<rparr>,
          min (gas_fee ctx) (Balance depositor))"
    by (simp add: fetchCaller_short)
  with run show "Status r = ReceiptStatus_ErrNotEnoughBalance"
    by (auto simp: handleDepositToStake_def settled_Inr dest: settleAction_Status)
next
  assume h: "accounts sm (Caller (actionCtx ctx)) = Some depositor \<and>
    ds_Amount act + gas_fee ctx \<le> Balance depositor \<and>
    bucket_tbl sm (ds_BucketIndex act) = Some bucket"
  have f: "fetchCaller ctx sm (ds_Amount act) = Inr (depositor, gas_fee ctx)"
    using h by (simp add: fetchCaller_enough)
  have b: "fetchBucket cc ctx sm (ds_BucketIndex act) False True = Inr bucket"
    using h by (simp add: fetchBucket_any_owner)
  { assume "\<not> AutoStake bucket"
    then show "handleDepositToStake p cc ctx act sm =
           settled cc (settleAction p ctx sm ReceiptStatus_ErrInvalidBucketType (gas_fee ctx) [])"
      by (simp add: handleDepositToStake_def f b) }
  { fix r cc' sm'
    assume "handleDepositToStake p cc ctx act sm = Inr (r, cc', sm')"
    then show "Status r = ReceiptStatus_ErrInvalidBucketType \<longleftrightarrow> \<not> AutoStake bucket"
      unfolding handleDepositToStake_def Let_def
      by (auto simp: f b settled_Inr split: handler_splits dest!: settleAction_Status) }
  { assume s: "AutoStake bucket \<and> GetByOwner cc (b_Candidate bucket) = Some candidate \<and>
       0 \<le> ds_Amount act \<and> 0 \<le> gas_fee ctx \<and>
       0 \<le> calculateVoteWeight p bucket (ContainsSelfStakingBucket cc (ds_BucketIndex act)) \<and>
       calculateVoteWeight p bucket (ContainsSelfStakingBucket cc (ds_BucketIndex act)) \<le> Votes candidate \<and>
       0 \<le> calculateVoteWeight p (bucket\<lparr>StakedAmount := StakedAmount bucket + ds_Amount act\<rparr>)
              (ContainsSelfStakingBucket cc (ds_BucketIndex act))"
    have sb: "SubBalance depositor (ds_Amount act) = Inr (depositor\<lparr>Balance := Balance depositor - ds_Amount act\<rparr>)"
      using h s f by (auto simp: SubBalance_def fetchCaller_def LoadAccount_def Let_def gas_fee_def split: if_splits)
    show "handleDepositToStake p cc ctx act sm =
           (let self = ContainsSelfStakingBucket cc (ds_BucketIndex act);
                bucket1 = bucket\<lparr>StakedAmount := StakedAmount bucket + ds_Amount act\<rparr>;
                candidate1 = candidate
                  \<lparr>Votes := Votes candidate - calculateVoteWeight p bucket self
                              + calculateVoteWeight p bucket1 self,
                   SelfStake := (if self then SelfStake candidate + ds_Amount act
                                 else SelfStake candidate)\<rparr>;
                sm1 = sm\<lparr>bucket_tbl := (bucket_tbl sm)(ds_BucketIndex act \<mapsto> bucket1),
                         candidate_tbl := (candidate_tbl sm)(c_Owner candidate \<mapsto> candidate1),
                         accounts := (accounts sm)(Caller (actionCtx ctx) \<mapsto>
                                        depositor\<lparr>Balance := Balance depositor - ds_Amount act\<rparr>)\<rparr>
            in case settleAction p ctx sm1 ReceiptStatus_Success (gas_fee ctx)
                      [createLog p ctx ''depositToStake'' None (Caller (actionCtx ctx)) None] of
                 Inl e \<Rightarrow> Inl e
               | Inr (receipt, sm2) \<Rightarrow>
                   (case Upsert cc candidate1 of
                      Inl e \<Rightarrow> Inl e
                    | Inr cc1 \<Rightarrow> Inr (receipt, cc1, sm2)))"
      using s
      by (simp add: handleDepositToStake_def f b sb Let_def updateBucket_def SubVote_def AddVote_def
            AddSelfStake_def putCandidate_def StoreAccount_def
          cong: sum.case_cong prod.case_cong) }
qed

theorem depositToStake_auto_stake_only_witness:
  "b_Owner (bucket0 ''carol'' 0 True) \<noteq> Caller (actionCtx (ctx_of ''alice'' 0)) \<and>
   (\<exists>r cc' sm'. handleDepositToStake proto0 [cand_bob] (ctx_of ''alice'' 0)
              \<lparr>ds_BucketIndex = 0, ds_Amount = 25\<rparr> (sm_bucket 1000 (bucket0 ''carol'' 0 True))
            = Inr (r, cc', sm') \<and>
          Status r = ReceiptStatus_Success \<and>
          bucket_tbl sm' 0 = Some ((bucket0 ''carol'' 0 True)\<lparr>StakedAmount := 75\<rparr>) \<and>
          candidate_tbl sm' ''bob'' = Some (cand_bob\<lparr>Votes := 75\<rparr>) \<and>
          cc' = [cand_bob\<lparr>Votes := 75\<rparr>]) \<and>
   (\<exists>r sm'. handleDepositToStake proto0 [cand_bob] (ctx_of ''alice'' 0)
              \<lparr>ds_BucketIndex = 0, ds_Amount = 25\<rparr> (sm_bucket 1000 (bucket0 ''carol'' 0 False))
            = Inr (r, [cand_bob], sm') \<and>
          Status r = ReceiptStatus_ErrInvalidBucketType)"
proof -
  have a: "accounts (sm_bucket 1000 (bucket0 ''carol'' 0 au)) (Caller (actionCtx (ctx_of ''alice'' 0)))
             = Some \<lparr>Balance = 1000, Nonce = 0\<rparr>" for au
    by (simp add: sm_bucket_def ctx_of_def)
  have g: "ds_Amount \<lparr>ds_BucketIndex = 0, ds_Amount = 25\<rparr> + gas_fee (ctx_of ''alice'' 0)
             \<le> Balance \<lparr>Balance = 1000, Nonce = 0\<rparr>"
    by (simp add: gas_fee_def ctx_of_def)
  have b: "bucket_tbl (sm_bucket 1000 (bucket0 ''carol'' 0 au)) (ds_BucketIndex \<lparr>ds_BucketIndex = 0, ds_Amount = 25\<rparr>)
             = Some (bucket0 ''carol'' 0 au)" for au
    by (simp add: sm_bucket_def)
  note T = depositToStake_auto_stake_only [where p = proto0 and cc = "[cand_bob]"
               and ctx = "ctx_of ''alice'' 0"
               and act = "\<lparr>ds_BucketIndex = 0, ds_Amount = 25\<rparr>"
               and depositor = "\<lparr>Balance = 1000, Nonce = 0\<rparr>" and candidate = cand_bob]
  note T1 = T [where sm = "sm_bucket 1000 (bucket0 ''carol'' 0 True)"
                 and bucket = "bucket0 ''carol'' 0 True"]
  note T2 = T [where sm = "sm_bucket 1000 (bucket0 ''carol'' 0 False)"
                 and bucket = "bucket0 ''carol'' 0 False"]
  have c1: "\<exists>r cc' sm'. handleDepositToStake proto0 [cand_bob] (ctx_of ''alice'' 0)
              \<lparr>ds_BucketIndex = 0, ds_Amount = 25\<rparr> (sm_bucket 1000 (bucket0 ''carol'' 0 True))
            = Inr (r, cc', sm') \<and>
          Status r = ReceiptStatus_Success \<and>
          bucket_tbl sm' 0 = Some ((bucket0 ''carol'' 0 True)\<lparr>StakedAmount := 75\<rparr>) \<and>
          candidate_tbl sm' ''bob'' = Some (cand_bob\<lparr>Votes := 75\<rparr>) \<and>
          cc' = [cand_bob\<lparr>Votes := 75\<rparr>]"
    using T1 a g b
    by (simp add: bucket0_def ctx_of_def gas_fee_def sm_bucket_def settled_def
          settleAction_def proto0_def deposit_gas_def LoadAccount_def StoreAccount_def
          increaseNonce_def createLog_def GetByOwner_def cand_bob_def amount_weight_def
          ContainsSelfStakingBucket_def Upsert_def Let_def)
  have c2: "\<exists>r sm'. handleDepositToStake proto0 [cand_bob] (ctx_of ''alice'' 0)
              \<lparr>ds_BucketIndex = 0, ds_Amount = 25\<rparr> (sm_bucket 1000 (bucket0 ''carol'' 0 False))
            = Inr (r, [cand_bob], sm') \<and>
          Status r = ReceiptStatus_ErrInvalidBucketType"
    using T2 a g b
    by (simp add: bucket0_def ctx_of_def gas_fee_def sm_bucket_def settled_def
          settleAction_def proto0_def deposit_gas_def LoadAccount_def StoreAccount_def
          increaseNonce_def)
  have o: "b_Owner (bucket0 ''carol'' 0 True) \<noteq> Caller (actionCtx (ctx_of ''alice'' 0))"
    by (simp add: bucket0_def ctx_of_def)
  show ?thesis
    using o c1 c2 by blast
qed

text \<open>
  Without the condition on the balance: a caller with balance 10 deposits 25 to a
  bucket that is not auto-stake, and the status is not-enough-balance.
\<close>

theorem depositToStake_auto_stake_only_counterexample:
  "bucket_tbl (sm_bucket 10 (bucket0 ''carol'' 0 False)) 0 = Some (bucket0 ''carol'' 0 False) \<and>
   \<not> AutoStake (bucket0 ''carol'' 0 False) \<and>
   handleDepositToStake proto0 [cand_bob] (ctx_of ''alice'' 0)
       \<lparr>ds_BucketIndex = 0, ds_Amount = 25\<rparr> (sm_bucket 10 (bucket0 ''carol'' 0 False))
     = Inr (\<lparr>Status = ReceiptStatus_ErrNotEnoughBalance, r_BlockHeight = 1, r_ActionHash = ''h'',
             GasConsumed = 1, ContractAddress = ''staking'', Logs = []\<rparr>,
            [cand_bob],
            (sm_bucket 10 (bucket0 ''carol'' 0 False))
              \<lparr>accounts := [''alice'' \<mapsto> \<lparr>Balance = 9, Nonce = 1\<rparr>], reward_pool := 1\<rparr>)"
  by (simp add: handleDepositToStake_def fetchCaller_def LoadAccount_def proto0_def ctx_of_def
        sm_bucket_def bucket0_def settled_def settleAction_def deposit_gas_def
        StoreAccount_def increaseNonce_def)

section \<open>Transfer of a stake\<close>

lemma settleAction_tables:
  assumes "\<forall>s a s1. depositGas p ctx s a = Inr s1 \<longrightarrow> staking_tables s1 = staking_tables s"
    and "settleAction p ctx sm st g l = Inr (r, sm')"
  shows "staking_tables sm' = staking_tables sm"
proof -
  from settleAction_steps [OF assms(2)] obtain sm1 where
    d: "depositGas p ctx sm g = Inr sm1" and
    n: "increaseNonce sm1 (Caller (actionCtx ctx)) (a_Nonce (actionCtx ctx)) = Inr sm'"
    by blast
  show ?thesis
    using increaseNonce_tables [OF n] assms(1) d by simp
qed

lemma fetchBucket_Inl_status:
  "fetchBucket cc ctx sm i co ss = Inl fe \<Longrightarrow> failureStatus fe \<noteq> ReceiptStatus_Success"
  by (auto simp: fetchBucket_def split: sum.splits if_splits)

lemma fetchCaller_Inl_status:
  "fetchCaller ctx sm amt = Inl (fe, g) \<Longrightarrow> failureStatus fe \<noteq> ReceiptStatus_Success"
  by (auto simp: fetchCaller_def Let_def split: sum.splits if_splits)

lemma fetchBucket_Inr:
  "fetchBucket cc ctx sm i co ss = Inr b \<Longrightarrow>
   bucket_tbl sm i = Some b \<and> (co \<longrightarrow> b_Owner b = Caller (actionCtx ctx)) \<and>
   (\<not> ss \<longrightarrow> \<not> ContainsSelfStakingBucket cc i)"
  by (auto simp: fetchBucket_def getBucket_def split: option.splits if_splits)

lemma transferStake_Success:
  assumes run: "handleTransferStake p cc ctx act sm = Inr (r, cc', sm')"
    and ok: "Status r = ReceiptStatus_Success"
    and bucket: "bucket_tbl sm (ts_BucketIndex act) = Some bucket"
  shows "b_Owner bucket = Caller (actionCtx ctx) \<and>
     \<not> ContainsSelfStakingBucket cc (ts_BucketIndex act) \<and> cc' = cc \<and>
     (\<exists>g. settleAction p ctx
       (sm\<lparr>voter_buckets :=
              ((voter_buckets sm)(b_Owner bucket := voter_buckets sm (b_Owner bucket) - {ts_BucketIndex act}))
              (ts_VoterAddress act :=
                 insert (ts_BucketIndex act)
                   (((voter_buckets sm)(b_Owner bucket := voter_buckets sm (b_Owner bucket) - {ts_BucketIndex act}))
                      (ts_VoterAddress act))),
            bucket_tbl := (bucket_tbl sm)(ts_BucketIndex act \<mapsto> bucket\<lparr>b_Owner := ts_VoterAddress act\<rparr>)\<rparr>)
       ReceiptStatus_Success g
       [createLog p ctx ''transferStake'' None (Caller (actionCtx ctx)) None] = Inr (r, sm'))"
proof (cases "fetchCaller ctx sm 0")
  case (Inl x)
  obtain fe g where x: "x = (fe, g)" by (cases x)
  from run Inl x have "settleAction p ctx sm (failureStatus fe) g [] = Inr (r, sm')"
    by (simp add: handleTransferStake_def settled_Inr split: if_splits)
  from settleAction_Status [OF this] ok fetchCaller_Inl_status [of ctx sm 0 fe g] Inl x
  show ?thesis by simp
next
  case (Inr y)
  obtain acc g where y: "y = (acc, g)" by (cases y)
  show ?thesis
  proof (cases "fetchBucket cc ctx sm (ts_BucketIndex act) True False")
    case (Inl fe)
    from run Inr y Inl have "settleAction p ctx sm (failureStatus fe) g [] = Inr (r, sm')"
      by (simp add: handleTransferStake_def settled_Inr split: if_splits)
    from settleAction_Status [OF this] ok fetchBucket_Inl_status [OF Inl]
    show ?thesis by simp
  next
    case (Inr b)
    from fetchBucket_Inr [OF Inr] bucket have b: "b = bucket" and
      o: "b_Owner bucket = Caller (actionCtx ctx)" and
      ns: "\<not> ContainsSelfStakingBucket cc (ts_BucketIndex act)"
      by auto
    from run \<open>fetchCaller ctx sm 0 = Inr y\<close> y Inr b show ?thesis
      using o ns
      by (auto simp: handleTransferStake_def settled_Inr delVoterBucketIndex_def
            putVoterBucketIndex_def updateBucket_def Let_def)
  qed
qed

text \<open>
  C7, for every new voter, the owner itself included. A successful
  \<open>handleTransferStake\<close> by caller X to voter Y on bucket \<open>idx\<close> (the
  gas hook leaving the staking tables alone): the bucket was owned by X and is not a
  self-stake bucket; the voter index is the old one with \<open>idx\<close> taken out of X's set
  and then put into Y's set, so \<open>idx\<close> is in Y's set and, for Y other than X, no longer
  in X's; the bucket is the old bucket with owner Y; the candidate records, the
  candidate bucket index, the bucket count and the candidate center are unchanged.
\<close>

theorem transferStake_moves_voter_index:
  assumes run: "handleTransferStake p cc ctx act sm = Inr (r, cc', sm')"
    and ok: "Status r = ReceiptStatus_Success"
    and bucket: "bucket_tbl sm (ts_BucketIndex act) = Some bucket"
    and hook: "\<forall>s a s1. depositGas p ctx s a = Inr s1 \<longrightarrow> staking_tables s1 = staking_tables s"
  shows "b_Owner bucket = Caller (actionCtx ctx) \<and>
     \<not> ContainsSelfStakingBucket cc (ts_BucketIndex act) \<and>
     voter_buckets sm' =
       ((voter_buckets sm)(Caller (actionCtx ctx) :=
            voter_buckets sm (Caller (actionCtx ctx)) - {ts_BucketIndex act}))
       (ts_VoterAddress act :=
          insert (ts_BucketIndex act)
            (((voter_buckets sm)(Caller (actionCtx ctx) :=
                 voter_buckets sm (Caller (actionCtx ctx)) - {ts_BucketIndex act}))
               (ts_VoterAddress act))) \<and>
     ts_BucketIndex act \<in> voter_buckets sm' (ts_VoterAddress act) \<and>
     (ts_VoterAddress act \<noteq> Caller (actionCtx ctx) \<longrightarrow>
        ts_BucketIndex act \<notin> voter_buckets sm' (Caller (actionCtx ctx))) \<and>
     bucket_tbl sm' = (bucket_tbl sm)(ts_BucketIndex act \<mapsto> bucket\<lparr>b_Owner := ts_VoterAddress act\<rparr>) \<and>
     candidate_tbl sm' = candidate_tbl sm \<and>
     cand_buckets sm' = cand_buckets sm \<and>
     bucket_count sm' = bucket_count sm \<and>
     cc' = cc"
proof -
  note L = transferStake_Success [OF run ok bucket]
  from L have o: "b_Owner bucket = Caller (actionCtx ctx)"
    and ns: "\<not> ContainsSelfStakingBucket cc (ts_BucketIndex act)" and c: "cc' = cc"
    by blast+
  from L obtain g where
    s: "settleAction p ctx
       (sm\<lparr>voter_buckets :=
              ((voter_buckets sm)(b_Owner bucket := voter_buckets sm (b_Owner bucket) - {ts_BucketIndex act}))
              (ts_VoterAddress act :=
                 insert (ts_BucketIndex act)
                   (((voter_buckets sm)(b_Owner bucket := voter_buckets sm (b_Owner bucket) - {ts_BucketIndex act}))
                      (ts_VoterAddress act))),
            bucket_tbl := (bucket_tbl sm)(ts_BucketIndex act \<mapsto> bucket\<lparr>b_Owner := ts_VoterAddress act\<rparr>)\<rparr>)
       ReceiptStatus_Success g
       [createLog p ctx ''transferStake'' None (Caller (actionCtx ctx)) None] = Inr (r, sm')"
    by blast
  from settleAction_tables [OF hook s] show ?thesis
    using o ns c by (auto simp: staking_tables_def)
qed

theorem transferStake_moves_voter_index_witness:
  "\<exists>r sm'. handleTransferStake proto0 [cand_bob] (ctx_of ''alice'' 0)
              \<lparr>ts_VoterAddress = ''dave'', ts_BucketIndex = 0\<rparr>
              (sm_bucket 1000 (bucket0 ''alice'' 0 False)) = Inr (r, [cand_bob], sm') \<and>
           Status r = ReceiptStatus_Success \<and>
           0 \<in> voter_buckets sm' ''dave'' \<and> 0 \<notin> voter_buckets sm' ''alice'' \<and>
           bucket_tbl sm' 0 = Some (bucket0 ''dave'' 0 False) \<and>
           candidate_tbl sm' = candidate_tbl (sm_bucket 1000 (bucket0 ''alice'' 0 False)) \<and>
           cand_buckets sm' = cand_buckets (sm_bucket 1000 (bucket0 ''alice'' 0 False))"
proof -
  have "\<exists>r sm'. handleTransferStake proto0 [cand_bob] (ctx_of ''alice'' 0)
              \<lparr>ts_VoterAddress = ''dave'', ts_BucketIndex = 0\<rparr>
              (sm_bucket 1000 (bucket0 ''alice'' 0 False)) = Inr (r, [cand_bob], sm') \<and>
           Status r = ReceiptStatus_Success"
    by (simp add: handleTransferStake_def fetchCaller_def LoadAccount_def fetchBucket_def getBucket_def
          ContainsSelfStakingBucket_def cand_bob_def bucket0_def ctx_of_def sm_bucket_def
          delVoterBucketIndex_def putVoterBucketIndex_def updateBucket_def settled_def
          settleAction_def proto0_def deposit_gas_def StoreAccount_def increaseNonce_def Let_def)
  then obtain r sm' where
    run: "handleTransferStake proto0 [cand_bob] (ctx_of ''alice'' 0)
              \<lparr>ts_VoterAddress = ''dave'', ts_BucketIndex = 0\<rparr>
              (sm_bucket 1000 (bucket0 ''alice'' 0 False)) = Inr (r, [cand_bob], sm')"
    and ok: "Status r = ReceiptStatus_Success"
    by blast
  have b: "bucket_tbl (sm_bucket 1000 (bucket0 ''alice'' 0 False))
             (ts_BucketIndex \<lparr>ts_VoterAddress = ''dave'', ts_BucketIndex = 0\<rparr>)
           = Some (bucket0 ''alice'' 0 False)"
    by (simp add: sm_bucket_def)
  have hook: "\<forall>s a s1. depositGas proto0 (ctx_of ''alice'' 0) s a = Inr s1
                \<longrightarrow> staking_tables s1 = staking_tables s"
    by (simp add: proto0_def deposit_gas_tables)
  from transferStake_moves_voter_index [OF run ok b hook]
  have "0 \<in> voter_buckets sm' ''dave'' \<and> 0 \<notin> voter_buckets sm' ''alice'' \<and>
           bucket_tbl sm' 0 = Some (bucket0 ''dave'' 0 False) \<and>
           candidate_tbl sm' = candidate_tbl (sm_bucket 1000 (bucket0 ''alice'' 0 False)) \<and>
           cand_buckets sm' = cand_buckets (sm_bucket 1000 (bucket0 ''alice'' 0 False))"
    by (simp add: ctx_of_def bucket0_def)
  with run ok show ?thesis by blast
qed

text \<open>
  A transfer to the owner itself succeeds and leaves the bucket in the owner's set.
\<close>

theorem transferStake_moves_voter_index_counterexample:
  "handleTransferStake proto0 [cand_bob] (ctx_of ''alice'' 0)
       \<lparr>ts_VoterAddress = ''alice'', ts_BucketIndex = 0\<rparr>
       (sm_bucket 1000 (bucket0 ''alice'' 0 False))
     = Inr (\<lparr>Status = ReceiptStatus_Success, r_BlockHeight = 1, r_ActionHash = ''h'',
             GasConsumed = 1, ContractAddress = ''staking'',
             Logs = [\<lparr>l_Address = ''staking'',
                      Topics = [Hash256b ''transferStake'', Hash256b ''alice''],
                      Data = None, l_BlockHeight = 1, l_ActionHash = ''h''\<rparr>]\<rparr>,
            [cand_bob],
            (sm_bucket 1000 (bucket0 ''alice'' 0 False))
              \<lparr>accounts := [''alice'' \<mapsto> \<lparr>Balance = 999, Nonce = 1\<rparr>], reward_pool := 1\<rparr>) \<and>
   0 \<in> voter_buckets ((sm_bucket 1000 (bucket0 ''alice'' 0 False))
              \<lparr>accounts := [''alice'' \<mapsto> \<lparr>Balance = 999, Nonce = 1\<rparr>], reward_pool := 1\<rparr>) ''alice''"
  by (simp add: handleTransferStake_def fetchCaller_def LoadAccount_def fetchBucket_def getBucket_def
          ContainsSelfStakingBucket_def cand_bob_def bucket0_def ctx_of_def sm_bucket_def
          delVoterBucketIndex_def putVoterBucketIndex_def updateBucket_def settled_def
          settleAction_def proto0_def deposit_gas_def StoreAccount_def increaseNonce_def Let_def
          createLog_def fun_eq_iff)

section \<open>Registration of a candidate\<close>

text \<open>
  C6. The register scenario: registration fee 10, gas price 1, intrinsic gas 1 within
  the block gas limit, a caller with balance 1000, no bucket and no candidate yet, and
  an action with amount 100, duration 7 and no auto-stake. Whatever the gas hook,
  \<open>handleCandidateRegister\<close> puts bucket 0 and its index entries, stores the owner's
  candidate with self-stake 100, stores the caller's account with the amount taken
  off (balance 900), hands exactly the registration fee 10 to the hook on that state,
  and then settles with status Success and the gas fee 1. With the hook \<open>deposit_gas\<close>
  the receipt is returned, the hook has taken the registration fee and then the gas
  fee from the caller, whose balance is 889, the reward pool has gained 11, the
  owner's candidate is stored and in the center with self-stake 100 and self-stake
  bucket 0, and bucket 0 exists with the amount 100, owned by and voting for the
  candidate's owner.
\<close>

theorem candidateRegister_scenario:
  assumes fee: "RegistrationFee p = 10"
    and price: "GasPrice (actionCtx ctx) = 1"
    and gas: "IntrinsicGas (actionCtx ctx) = 1"
    and limit: "\<not> GasLimit (blkCtx ctx) < 1"
    and caller: "accounts sm (Caller (actionCtx ctx)) = Some acc"
    and balance: "Balance acc = 1000"
    and fresh: "bucket_count sm = 0"
    and amount: "cr_Amount act = 100"
    and duration: "cr_Duration act = 7"
    and auto: "cr_AutoStake act = False"
  shows "(let owner = (case cr_OwnerAddress act of None \<Rightarrow> Caller (actionCtx ctx) | Some a \<Rightarrow> a);
              bucket = NewVoteBucket owner owner 100 7 (BlockTimeStamp (blkCtx ctx)) False;
              c = \<lparr>c_Owner = owner, Operator = cr_OperatorAddress act,
                   Reward = cr_RewardAddress act, Name = cr_Name act,
                   Votes = calculateVoteWeight p bucket True,
                   SelfStakeBucketIdx = 0, SelfStake = 100\<rparr>;
              sm1 = sm\<lparr>bucket_tbl := (bucket_tbl sm)(0 \<mapsto> bucket), bucket_count := 1\<rparr>;
              sm2 = sm1\<lparr>voter_buckets := (voter_buckets sm1)(owner := insert 0 (voter_buckets sm1 owner))\<rparr>;
              sm3 = sm2\<lparr>cand_buckets := (cand_buckets sm2)(owner := insert 0 (cand_buckets sm2 owner))\<rparr>;
              sm4 = sm3\<lparr>candidate_tbl := (candidate_tbl sm3)(owner \<mapsto> c)\<rparr>;
              sm5 = sm4\<lparr>accounts := (accounts sm4)(Caller (actionCtx ctx) \<mapsto> acc\<lparr>Balance := 900\<rparr>)\<rparr>
          in handleCandidateRegister p [] ctx act sm =
               (case depositGas p ctx sm5 10 of
                  Inl e \<Rightarrow> Inl e
                | Inr sm6 \<Rightarrow>
                    (case settleAction p ctx sm6 ReceiptStatus_Success 1
                            [createLog p ctx ''candidateRegister'' (Some owner)
                               (Caller (actionCtx ctx)) (Some 0)] of
                       Inl e \<Rightarrow> Inl e
                     | Inr (receipt, sm7) \<Rightarrow> Inr (receipt, [c], sm7)))) \<and>
         (depositGas p = deposit_gas \<longrightarrow>
            (\<exists>r cc' sm' acc' c b.
               handleCandidateRegister p [] ctx act sm = Inr (r, cc', sm') \<and>
               Status r = ReceiptStatus_Success \<and>
               accounts sm' (Caller (actionCtx ctx)) = Some acc' \<and> Balance acc' = 889 \<and>
               reward_pool sm' = reward_pool sm + 11 \<and>
               candidate_tbl sm' (case cr_OwnerAddress act of None \<Rightarrow> Caller (actionCtx ctx) | Some a \<Rightarrow> a) = Some c \<and>
               SelfStake c = 100 \<and> SelfStakeBucketIdx c = 0 \<and> cc' = [c] \<and>
               bucket_tbl sm' 0 = Some b \<and> StakedAmount b = 100 \<and> \<not> AutoStake b \<and>
               b_Owner b = c_Owner c \<and> b_Candidate b = c_Owner c))"
proof -
  have f: "fetchCaller ctx sm 110 = Inr (acc, 1)"
    using caller balance amount price gas
    by (simp add: fetchCaller_def LoadAccount_def Let_def)
  have routing: "(let owner = (case cr_OwnerAddress act of None \<Rightarrow> Caller (actionCtx ctx) | Some a \<Rightarrow> a);
              bucket = NewVoteBucket owner owner 100 7 (BlockTimeStamp (blkCtx ctx)) False;
              c = \<lparr>c_Owner = owner, Operator = cr_OperatorAddress act,
                   Reward = cr_RewardAddress act, Name = cr_Name act,
                   Votes = calculateVoteWeight p bucket True,
                   SelfStakeBucketIdx = 0, SelfStake = 100\<rparr>;
              sm1 = sm\<lparr>bucket_tbl := (bucket_tbl sm)(0 \<mapsto> bucket), bucket_count := 1\<rparr>;
              sm2 = sm1\<lparr>voter_buckets := (voter_buckets sm1)(owner := insert 0 (voter_buckets sm1 owner))\<rparr>;
              sm3 = sm2\<lparr>cand_buckets := (cand_buckets sm2)(owner := insert 0 (cand_buckets sm2 owner))\<rparr>;
              sm4 = sm3\<lparr>candidate_tbl := (candidate_tbl sm3)(owner \<mapsto> c)\<rparr>;
              sm5 = sm4\<lparr>accounts := (accounts sm4)(Caller (actionCtx ctx) \<mapsto> acc\<lparr>Balance := 900\<rparr>)\<rparr>
          in handleCandidateRegister p [] ctx act sm =
               (case depositGas p ctx sm5 10 of
                  Inl e \<Rightarrow> Inl e
                | Inr sm6 \<Rightarrow>
                    (case settleAction p ctx sm6 ReceiptStatus_Success 1
                            [createLog p ctx ''candidateRegister'' (Some owner)
                               (Caller (actionCtx ctx)) (Some 0)] of
                       Inl e \<Rightarrow> Inl e
                     | Inr (receipt, sm7) \<Rightarrow> Inr (receipt, [c], sm7))))"
    using fee balance fresh amount duration auto
    by (simp add: handleCandidateRegister_def f Let_def putBucketAndIndex_def putBucket_def
          putVoterBucketIndex_def putCandBucketIndex_def putCandidate_def SubBalance_def
          StoreAccount_def Upsert_def NewVoteBucket_def
          cong: sum.case_cong prod.case_cong)
  have hooked: "\<exists>r cc' sm' acc' c b.
               handleCandidateRegister p [] ctx act sm = Inr (r, cc', sm') \<and>
               Status r = ReceiptStatus_Success \<and>
               accounts sm' (Caller (actionCtx ctx)) = Some acc' \<and> Balance acc' = 889 \<and>
               reward_pool sm' = reward_pool sm + 11 \<and>
               candidate_tbl sm' (case cr_OwnerAddress act of None \<Rightarrow> Caller (actionCtx ctx) | Some a \<Rightarrow> a) = Some c \<and>
               SelfStake c = 100 \<and> SelfStakeBucketIdx c = 0 \<and> cc' = [c] \<and>
               bucket_tbl sm' 0 = Some b \<and> StakedAmount b = 100 \<and> \<not> AutoStake b \<and>
               b_Owner b = c_Owner c \<and> b_Candidate b = c_Owner c"
    if hook: "depositGas p = deposit_gas"
    using fee hook limit caller balance fresh amount auto gas
    by (simp add: handleCandidateRegister_def f Let_def putBucketAndIndex_def putBucket_def
          putVoterBucketIndex_def putCandBucketIndex_def putCandidate_def SubBalance_def
          StoreAccount_def deposit_gas_def LoadAccount_def settleAction_def increaseNonce_def
          Upsert_def NewVoteBucket_def)
  show ?thesis
    using routing hooked by blast
qed

theorem candidateRegister_scenario_witness:
  "\<exists>r cc' sm' acc' c b.
     handleCandidateRegister proto0 [] (ctx_of ''alice'' 5000000000)
       \<lparr>cr_Name = ''al'', cr_OperatorAddress = ''al-op'', cr_RewardAddress = ''al-rw'',
        cr_OwnerAddress = None, cr_Amount = 100, cr_Duration = 7, cr_AutoStake = False\<rparr>
       (sm_alice 1000) = Inr (r, cc', sm') \<and>
     Status r = ReceiptStatus_Success \<and>
     accounts sm' ''alice'' = Some acc' \<and> Balance acc' = 889 \<and>
     reward_pool sm' = 11 \<and>
     candidate_tbl sm' ''alice'' = Some c \<and>
     SelfStake c = 100 \<and> SelfStakeBucketIdx c = 0 \<and> cc' = [c] \<and>
     bucket_tbl sm' 0 = Some b \<and> StakedAmount b = 100 \<and> \<not> AutoStake b \<and>
     b_Owner b = c_Owner c \<and> b_Candidate b = c_Owner c"
  using candidateRegister_scenario [of proto0 "ctx_of ''alice'' 5000000000" "sm_alice 1000"
          "\<lparr>Balance = 1000, Nonce = 0\<rparr>"
          "\<lparr>cr_Name = ''al'', cr_OperatorAddress = ''al-op'', cr_RewardAddress = ''al-rw'',
            cr_OwnerAddress = None, cr_Amount = 100, cr_Duration = 7, cr_AutoStake = False\<rparr>",
          THEN conjunct2]
  by (simp add: proto0_def ctx_of_def sm_alice_def sm_empty_def)

section \<open>The trie\<close>

lemma resetRoot_fields:
  "keyLength (snd (resetRoot ops mpt n)) = keyLength mpt \<and>
   kvStore (snd (resetRoot ops mpt n)) = kvStore mpt \<and>
   emptyRootHash (snd (resetRoot ops mpt n)) = emptyRootHash mpt \<and>
   root (snd (resetRoot ops mpt n)) = n"
  by (simp add: resetRoot_def Let_def split: sum.splits)

lemma resetRoot_rootHash:
  "n_Hash ops n = Inr h \<Longrightarrow> rootHash (snd (resetRoot ops mpt n)) = h"
  by (simp add: resetRoot_def Let_def)

lemma setRootHash_emptyRootHash:
  "emptyRootHash (snd (setRootHash ops mpt h)) = emptyRootHash mpt"
  by (simp add: setRootHash_def Let_def resetRoot_fields split: sum.splits node.splits)

lemma Start_started:
  "Start ops mpt0 = (None, mpt) \<Longrightarrow> n_Hash ops (newEmptyRootBranchNode ops) = Inr (emptyRootHash mpt)"
proof -
  assume s: "Start ops mpt0 = (None, mpt)"
  show ?thesis
  proof (cases "n_Hash ops (newEmptyRootBranchNode ops)")
    case (Inl e)
    with s show ?thesis by (simp add: Start_def)
  next
    case (Inr h)
    with s have "emptyRootHash mpt = h"
      using setRootHash_emptyRootHash [of ops]
      by (auto simp: Start_def Let_def split: if_splits dest!: arg_cong [where f = snd])
    with Inr show ?thesis by simp
  qed
qed

lemma flat_ops_contract:
  "\<forall>kv n key. (\<exists>e. n_Search flat_ops kv n key 0 = Inl e) \<longrightarrow>
               (\<exists>e kv'. n_Delete flat_ops kv n key 0 = (Inl e, kv'))"
  by (auto simp: flat_ops_def split: option.splits)

text \<open>
  C8. The node operations keeping their contract (a delete at the root reports an
  error for a key that a search at the root does not find): for a key of the trie's
  key length that is not present, \<open>Delete\<close> fails with the not-exist error, and the
  root and the root hash of the trie are what they were before the call.
\<close>

theorem Delete_absent_key:
  assumes contract: "\<forall>kv n key. (\<exists>e. n_Search ops kv n key 0 = Inl e) \<longrightarrow>
                                 (\<exists>e kv'. n_Delete ops kv n key 0 = (Inl e, kv'))"
    and len: "int (length k) = keyLength mpt"
    and absent: "n_Search ops (kvStore mpt) (root mpt) k 0 = Inl e"
  shows "fst (Delete ops mpt k) = Some ErrNotExist \<and>
         RootHash (snd (Delete ops mpt k)) = RootHash mpt \<and>
         root (snd (Delete ops mpt k)) = root mpt"
proof -
  from contract absent obtain e' kv' where
    d: "n_Delete ops (kvStore mpt) (root mpt) k 0 = (Inl e', kv')"
    by blast
  show ?thesis
    using len by (simp add: Delete_def checkKeyType_def d RootHash_def)
qed

theorem Delete_absent_key_witness:
  "Get flat_ops mpt_a ''b'' = Inl ErrNotExist \<and>
   fst (Delete flat_ops mpt_a ''b'') = Some ErrNotExist \<and>
   RootHash (snd (Delete flat_ops mpt_a ''b'')) = ''Ba1''"
proof -
  have len: "int (length ''b'') = keyLength mpt_a"
    by (simp add: mpt_a_def)
  have absent: "n_Search flat_ops (kvStore mpt_a) (root mpt_a) ''b'' 0 = Inl ErrNotExist"
    by (simp add: flat_ops_def mpt_a_def flat_key_def)
  have g: "Get flat_ops mpt_a ''b'' = Inl ErrNotExist"
    using absent by (simp add: Get_def checkKeyType_def mpt_a_def)
  show ?thesis
    using g Delete_absent_key [OF flat_ops_contract len absent]
    by (simp add: RootHash_def mpt_a_def)
qed

text \<open>
  C9. On a started trie (the empty-root hash is the hash of the empty root, which
  \<open>Start\<close> establishes): \<open>SetRootHash\<close> with the empty slice or with the empty-root
  hash installs the empty root, and \<open>IsEmpty\<close> is true afterwards; and for a root hash
  \<open>h\<close> reachable in the store (a digest under which the store holds a branch node that
  hashes to \<open>h\<close>), \<open>RootHash\<close> returns \<open>h\<close> after \<open>SetRootHash h\<close>.
\<close>

theorem SetRootHash_rebinds:
  assumes started: "n_Hash ops (newEmptyRootBranchNode ops) = Inr (emptyRootHash mpt)"
  shows "(h = [] \<or> h = emptyRootHash mpt \<longrightarrow>
            fst (SetRootHash ops mpt h) = None \<and>
            root (snd (SetRootHash ops mpt h)) = newEmptyRootBranchNode ops \<and>
            IsEmpty (snd (SetRootHash ops mpt h))) \<and>
         (h \<noteq> [] \<and> loadNode ops mpt h = Inr (BranchNode b) \<and>
          n_Hash ops (MarkAsRoot ops b) = Inr h \<longrightarrow>
            fst (SetRootHash ops mpt h) = None \<and>
            RootHash (snd (SetRootHash ops mpt h)) = h)"
  using started
  by (auto simp: SetRootHash_def setRootHash_def isEmptyRootHash_def IsEmpty_def RootHash_def
        resetRoot_fields resetRoot_rootHash Let_def)

theorem SetRootHash_rebinds_witness:
  "IsEmpty (snd (SetRootHash flat_ops mpt_a ''B'')) \<and>
   IsEmpty (snd (SetRootHash flat_ops mpt_a [])) \<and>
   RootHash (snd (SetRootHash flat_ops (snd (SetRootHash flat_ops mpt_a ''B'')) ''Ba1'')) = ''Ba1''"
proof -
  have s0: "n_Hash flat_ops (newEmptyRootBranchNode flat_ops) = Inr (emptyRootHash mpt_a)"
    by (simp add: flat_ops_def mpt_a_def flat_enc_def)
  have s1: "n_Hash flat_ops (newEmptyRootBranchNode flat_ops)
              = Inr (emptyRootHash (snd (SetRootHash flat_ops mpt_a ''B'')))"
    using s0 by (simp add: SetRootHash_def setRootHash_emptyRootHash)
  have l: "loadNode flat_ops (snd (SetRootHash flat_ops mpt_a ''B'')) ''Ba1'' = Inr (BranchNode ''a1'')"
    by (simp add: loadNode_def SetRootHash_def setRootHash_def resetRoot_fields isEmptyRootHash_def
          mpt_a_def flat_ops_def)
  have hh: "n_Hash flat_ops (MarkAsRoot flat_ops ''a1'') = Inr ''Ba1''"
    by (simp add: flat_ops_def flat_enc_def)
  show ?thesis
    using SetRootHash_rebinds [OF s0, of "''B''"] SetRootHash_rebinds [OF s0, of "[]"]
          SetRootHash_rebinds [OF s1, of "''Ba1''" "''a1''"] l hh
    by (simp add: mpt_a_def)
qed

end
